theory Spec2Isabelle
  imports Complex_Main "HOL-Library.Sublist" "HOL-Library.AList" "HOL-Library.Code_Target_Numeral"
begin

section \<open>The upload service of \<open>src/server.js\<close>\<close>

text \<open>
  The server is an Express application: a chain of middleware and route handlers over one
  module-level map (\<open>uploadSessions\<close>) and one storage directory (\<open>uploadDir\<close>).
  A string is the list of its characters, a character outside ASCII being held as the
  bytes of its UTF-8 encoding; a JavaScript exception is a value of \<open>js_error\<close>; the
  clock, the random generator and the answers of the file system are inputs of the
  functions that read them.
\<close>

subsection \<open>Values\<close>

datatype json =
    JBool bool
  | JNum int
  | JStr string
  | JArr "json list"
  | JObj "(string \<times> json) list"

datatype js_error =
    Error string                 \<comment> \<open>\<open>new Error(message)\<close>\<close>
  | MulterError string string    \<comment> \<open>\<open>new multer.MulterError(code)\<close>: code and message\<close>
  | SystemError string           \<comment> \<open>an error of \<open>fs\<close>, by its code (\<open>ENOENT\<close>, ...)\<close>

text \<open>The part of a multipart request that carries a file, as multer hands it to the callbacks.\<close>

record file_part =
  fieldname :: string
  originalname :: string
  mimetype :: string
  content :: string

subsection \<open>The type filter (lines 46-59)\<close>

definition allowedTypes :: "string list" where
  "allowedTypes =
     [''image/jpeg'', ''image/jpg'', ''image/png'', ''image/gif'', ''image/webp'',
      ''model/gltf'', ''model/glb'', ''model/obj'']"

text \<open>
  The regular expression \<^verbatim>\<open>/\.(jpg|jpeg|png|gif|webp|gltf|glb|obj)$/i\<close>. Under the
  \<open>i\<close> flag two characters match when their canonical (upper-case) forms agree; only the
  ASCII letters have another canonical form here, since the canonicalisation of
  JavaScript never maps a character outside ASCII to one inside.
\<close>

definition canonicalize :: "char \<Rightarrow> char" where
  "canonicalize c =
     (let n = (of_char c :: nat) in if 97 \<le> n \<and> n \<le> 122 then char_of (n - 32) else c)"

definition alternatives :: "string list" where
  "alternatives = [''jpg'', ''jpeg'', ''png'', ''gif'', ''webp'', ''gltf'', ''glb'', ''obj'']"

text \<open>
  One attempt of the matcher at the head of \<open>s\<close>: a literal dot, then an alternative
  consumed character by character, then \<open>$\<close>: nothing may be left.
\<close>

definition matches_here :: "string \<Rightarrow> bool" where
  "matches_here s =
     (case s of
        [] \<Rightarrow> False
      | c # rest \<Rightarrow>
          c = CHR ''.'' \<and>
          list_ex (\<lambda>alt. map canonicalize (take (length alt) rest) = map canonicalize alt
                         \<and> drop (length alt) rest = []) alternatives)"

text \<open>\<open>String.prototype.match\<close> tries every start position from the left; the result is
  truthy when one attempt succeeds.\<close>

fun regex_match :: "string \<Rightarrow> bool" where
  "regex_match [] = matches_here []"
| "regex_match (c # s) = (matches_here (c # s) \<or> regex_match s)"

datatype filter_verdict =
    Accept                \<comment> \<open>\<open>cb(null, true)\<close>\<close>
  | Reject js_error       \<comment> \<open>\<open>cb(new Error(...), false)\<close>\<close>

definition fileFilter :: "file_part \<Rightarrow> filter_verdict" where
  "fileFilter file =
     (if list_ex (\<lambda>type. mimetype file = type) allowedTypes \<or> regex_match (originalname file)
      then Accept
      else Reject (Error ''Only image files and 3D models are allowed!''))"

subsection \<open>Stored names (lines 29-41)\<close>

text \<open>
  A template literal prints a number in decimal; the numbers printed here are integers
  far below \<open>10\<^sup>2\<^sup>1\<close>, where JavaScript switches to exponent notation.
\<close>

fun digits :: "nat \<Rightarrow> string" where
  "digits n =
     (if n < 10 then [''0123456789'' ! n]
      else digits (n div 10) @ [''0123456789'' ! (n mod 10)])"

declare digits.simps [simp del]

definition number_to_string :: "int \<Rightarrow> string" where
  "number_to_string i = (if i < 0 then CHR ''-'' # digits (nat (- i)) else digits (nat i))"



text \<open>
  The product \<open>Math.random() * 1E9\<close> is a product of doubles: the exact product rounded
  to the nearest double, a tie going to the even significand. \<open>bit_length n\<close> is the
  number of binary digits of \<open>n\<close> and \<open>pow2 k\<close> is \<open>2\<^sup>k\<close>. \<open>binade q\<close> is the exponent
  of the double format at a value \<open>q \<ge> 0\<close>: the largest \<open>e\<close> with \<open>2\<^sup>e \<le> q\<close>, and \<open>-1022\<close>
  in the subnormal range; doubles of that exponent are the multiples of \<open>2\<^sup>e\<^sup>-\<^sup>5\<^sup>2\<close>.
  The values rounded here are far below the largest double.
\<close>

fun bit_length :: "nat \<Rightarrow> nat" where
  "bit_length n = (if n = 0 then 0 else Suc (bit_length (n div 2)))"

declare bit_length.simps [simp del]

definition pow2 :: "int \<Rightarrow> rat" where
  "pow2 k = (if 0 \<le> k then 2 ^ nat k else 1 / 2 ^ nat (- k))"

definition binade :: "rat \<Rightarrow> int" where
  "binade q = max (int (bit_length (nat \<lfloor>q * 2 ^ 1100\<rfloor>)) - 1101) (- 1022)"

definition round_half_even :: "rat \<Rightarrow> int" where
  "round_half_even x =
     (let f = \<lfloor>x\<rfloor>; r = x - of_int f
      in if r < 1 / 2 then f else if 1 / 2 < r then f + 1 else if even f then f else f + 1)"

definition double_round :: "rat \<Rightarrow> rat" where
  "double_round q =
     (let u = pow2 (binade q - 52) in of_int (round_half_even (q / u)) * u)"

text \<open>\<open>Math.round\<close>: the nearest integer, a tie going up.\<close>

definition Math_round :: "rat \<Rightarrow> int" where
  "Math_round x = \<lfloor>x + 1 / 2\<rfloor>"

text \<open>
  \<open>path.extname\<close> of Node (POSIX): the extension of the last segment of the path, from
  the last dot of the segment to its end; empty when the segment has no dot, when its only
  dot is its first character, and when the segment is \<open>..\<close>. Trailing slashes do not count.
\<close>

definition last_segment :: "string \<Rightarrow> string" where
  "last_segment p =
     rev (takeWhile (\<lambda>c. c \<noteq> CHR ''/'') (dropWhile (\<lambda>c. c = CHR ''/'') (rev p)))"

definition extname :: "string \<Rightarrow> string" where
  "extname p =
     (let seg = last_segment p;
          after_dot = rev (takeWhile (\<lambda>c. c \<noteq> CHR ''.'') (rev seg));
          before_dot = take (length seg - length after_dot - 1) seg
      in if CHR ''.'' \<notin> set seg then []
         else if before_dot = [] then []
         else if seg = ''..'' then []
         else CHR ''.'' # after_dot)"

text \<open>
  The \<open>filename\<close> callback of the disk storage. \<open>now\<close> is the value of \<open>Date.now()\<close> and
  \<open>rnd\<close> the value of \<open>Math.random()\<close> at the call, a double, given as the rational
  number it is.
\<close>

definition storage_filename :: "nat \<Rightarrow> rat \<Rightarrow> file_part \<Rightarrow> string" where
  "storage_filename now rnd file =
     (let timestamp = int now;
          random = Math_round (double_round (rnd * 1000000000));
          extension = extname (originalname file)
      in number_to_string timestamp @ ''-'' @ number_to_string random @ extension)"

subsection \<open>Paths (\<open>path.join\<close> of Node, POSIX)\<close>

fun split_on :: "char \<Rightarrow> string \<Rightarrow> string list" where
  "split_on sep [] = [[]]"
| "split_on sep (c # s) =
     (if c = sep then [] # split_on sep s
      else (case split_on sep s of [] \<Rightarrow> [[c]] | x # xs \<Rightarrow> (c # x) # xs))"

fun join_with :: "string \<Rightarrow> string list \<Rightarrow> string" where
  "join_with sep [] = []"
| "join_with sep [x] = x"
| "join_with sep (x # y # ys) = x @ sep @ join_with sep (y # ys)"

text \<open>
  The segments of a path are resolved from the left on a stack (its top first): empty
  segments and \<open>.\<close> are dropped, \<open>..\<close> removes the segment before it, and above the start
  of a relative path it is kept.
\<close>

fun normalize_segments :: "bool \<Rightarrow> string list \<Rightarrow> string list \<Rightarrow> string list" where
  "normalize_segments allowAboveRoot [] stack = rev stack"
| "normalize_segments allowAboveRoot (seg # segs) stack =
     (if seg = [] \<or> seg = ''.'' then normalize_segments allowAboveRoot segs stack
      else if seg = ''..'' then
        (case stack of
           previous # below \<Rightarrow>
             if previous \<noteq> ''..'' then normalize_segments allowAboveRoot segs below
             else if allowAboveRoot then normalize_segments allowAboveRoot segs (''..'' # stack)
             else normalize_segments allowAboveRoot segs stack
         | [] \<Rightarrow>
             if allowAboveRoot then normalize_segments allowAboveRoot segs [''..'']
             else normalize_segments allowAboveRoot segs [])
      else normalize_segments allowAboveRoot segs (seg # stack))"

definition normalize :: "string \<Rightarrow> string" where
  "normalize p =
     (if p = [] then ''.''
      else
        let isAbsolute = (hd p = CHR ''/'');
            trailingSeparator = (last p = CHR ''/'');
            body = join_with ''/'' (normalize_segments (\<not> isAbsolute) (split_on CHR ''/'' p) [])
        in if body = [] then (if isAbsolute then ''/'' else if trailingSeparator then ''./'' else ''.'')
           else (if isAbsolute then ''/'' else []) @ body @ (if trailingSeparator then ''/'' else []))"

definition path_join :: "string list \<Rightarrow> string" where
  "path_join args =
     (let parts = filter (\<lambda>a. a \<noteq> []) args
      in if parts = [] then ''.'' else normalize (join_with ''/'' parts))"

text \<open>\<open>String.prototype.indexOf\<close>: the first position at which the needle occurs, or -1.\<close>

fun indexOf_from :: "nat \<Rightarrow> string \<Rightarrow> string \<Rightarrow> int" where
  "indexOf_from i [] needle = (if needle = [] then int i else - 1)"
| "indexOf_from i (c # s) needle =
     (if prefix needle (c # s) then int i else indexOf_from (Suc i) s needle)"

definition indexOf :: "string \<Rightarrow> string \<Rightarrow> int" where
  "indexOf s needle = indexOf_from 0 s needle"

subsection \<open>State, environment, requests and responses\<close>

text \<open>
  The effects on the shared state are logged in the order in which they happen; the log
  is not part of the program, it records the order of its steps.
\<close>

datatype event =
    FileFilter string        \<comment> \<open>the type filter ran on a file of this original name\<close>
  | DiskWrite string         \<comment> \<open>a file of this stored name was written to the storage directory\<close>
  | DiskUnlink string        \<comment> \<open>a stored file was removed again\<close>
  | SessionsHas string       \<comment> \<open>\<open>uploadSessions.has(ip)\<close>\<close>
  | SessionsSet string       \<comment> \<open>\<open>uploadSessions.set(ip, ...)\<close>\<close>
  | SessionsDelete string    \<comment> \<open>\<open>uploadSessions.delete(ip)\<close>\<close>

record server_state =
  uploadSessions :: "string \<rightharpoonup> string"      \<comment> \<open>the module-level \<open>Map\<close> (line 26)\<close>
  disk :: "(string \<times> string) list"          \<comment> \<open>the storage directory: stored name and bytes\<close>
  trace :: "event list"

datatype send_result =
    Sent                     \<comment> \<open>the file was streamed to the client (200)\<close>
  | SentPart                 \<comment> \<open>the range of the file that the request asked for was streamed (206)\<close>
  | NotModified              \<comment> \<open>the copy of the client is fresh: 304, no body\<close>
  | SendSkipped              \<comment> \<open>\<open>res.sendFile\<close> called \<open>next()\<close> (the path is a directory)\<close>
  | SendFailed js_error      \<comment> \<open>\<open>res.sendFile\<close> called \<open>next(err)\<close>\<close>

text \<open>
  What \<open>express.static\<close> does with a \<open>GET\<close> or \<open>HEAD\<close> request: it passes the request on
  when it finds nothing to send under \<open>public/\<close>; it sends a file (the file at the request
  path, or the \<open>index.html\<close> of the directory at a request path that ends in a slash),
  whole, as a range, or as a 304; it redirects a request path that names a directory and
  does not end in a slash to that path with the slash (301); and it passes on an error
  that comes up once the file is found.
\<close>

datatype static_result =
    StaticPass
  | StaticFile string        \<comment> \<open>200: the file at this path of the file system\<close>
  | StaticPart string        \<comment> \<open>206: a range of that file\<close>
  | StaticNotModified        \<comment> \<open>304\<close>
  | StaticRedirect string    \<comment> \<open>301: the value of \<open>Location\<close>\<close>
  | StaticFail js_error      \<comment> \<open>\<open>next(err)\<close>\<close>

text \<open>What one request reads from outside the program: the clock, the random generator and
  the answers of the file system.\<close>

record env =
  dirname :: string                                \<comment> \<open>\<open>__dirname\<close>\<close>
  now_filename :: nat                              \<comment> \<open>\<open>Date.now()\<close>, line 35\<close>
  math_random :: rat                               \<comment> \<open>\<open>Math.random()\<close>, line 36\<close>
  write_error :: "js_error option"                 \<comment> \<open>the error of the disk write, when it fails\<close>
  now_start :: nat                                 \<comment> \<open>\<open>Date.now()\<close>, line 69\<close>
  now_session :: nat                               \<comment> \<open>\<open>Date.now()\<close>, line 89\<close>
  now_iso :: string                                \<comment> \<open>\<open>new Date().toISOString()\<close>, lines 131 and 191\<close>
  now_end :: nat                                   \<comment> \<open>\<open>Date.now()\<close>, line 132\<close>
  existsSync :: "string \<Rightarrow> bool"
  statSync :: "string \<Rightarrow> js_error + nat"           \<comment> \<open>the \<open>size\<close> of the stats, or the error thrown\<close>
  readdir :: "string \<Rightarrow> js_error + string list"
  sendFile :: "string \<Rightarrow> send_result"
  serve_static :: "string \<Rightarrow> static_result"       \<comment> \<open>\<open>express.static\<close> at this request path\<close>

record request =
  req_method :: string
  req_path :: string                               \<comment> \<open>\<open>req.path\<close>, not decoded\<close>
  ip :: string                                     \<comment> \<open>\<open>req.ip\<close>\<close>
  part :: "file_part option"                       \<comment> \<open>the file part of a multipart body, at most one\<close>
  malformed_body :: bool                           \<comment> \<open>a body parser fails on the body\<close>

datatype payload =
    JsonBody json            \<comment> \<open>\<open>res.json(...)\<close>\<close>
  | FileBody string          \<comment> \<open>the bytes of the file at this path\<close>
  | FilePart string          \<comment> \<open>a range of the bytes of the file at this path\<close>
  | RedirectPage string      \<comment> \<open>the page that names the new location\<close>
  | NoBody

record response =
  status :: nat
  payload :: payload

text \<open>What a layer of the application does with a request.\<close>

datatype step =
    Next                     \<comment> \<open>\<open>next()\<close>\<close>
  | Fail js_error            \<comment> \<open>\<open>next(err)\<close>, or an exception thrown inside the layer\<close>
  | End response             \<comment> \<open>the layer ended the request with this response\<close>
  | Crash js_error           \<comment> \<open>an exception thrown in a callback outside the layer: nobody catches it\<close>

definition json_reply :: "nat \<Rightarrow> (string \<times> json) list \<Rightarrow> response" where
  "json_reply code members = \<lparr>status = code, payload = JsonBody (JObj members)\<rparr>"

definition uploadDir :: "env \<Rightarrow> string" where
  "uploadDir e = path_join [dirname e, ''../public/uploads'']"

subsection \<open>The multer stage \<open>upload.single('file')\<close> (lines 29-60)\<close>

text \<open>What multer leaves in \<open>req.file\<close>: the part, and where the disk storage put it.\<close>

record req_file = file_part +
  destination :: string
  filename :: string
  path :: string
  file_size :: nat                                 \<comment> \<open>\<open>req.file.size\<close>: the bytes written\<close>

definition fileSize :: nat where
  "fileSize = 10 * 1024 * 1024"

text \<open>
  multer handles the file part of the request in this order: a part without a file name
  is skipped; a file in a field other than \<open>file\<close> aborts the request with
  \<open>LIMIT_UNEXPECTED_FILE\<close>; then \<open>fileFilter\<close> runs, and an error it passes to its callback
  aborts the request with that error; then the storage asks the \<open>filename\<close> callback for
  a name and streams the bytes to the storage directory; when the stream passes
  \<open>limits.fileSize\<close> the request is aborted with \<open>LIMIT_FILE_SIZE\<close> and the truncated file
  is removed. An aborted request goes to the error handler, the route handler is not called.
  A file of exactly \<open>limits.fileSize\<close> bytes is taken here as within the limit, as
  busboy 0.2 counts it; busboy 1 stops such a file as well, and no theorem below rests on
  that case.
\<close>

definition stored_file :: "env \<Rightarrow> file_part \<Rightarrow> req_file" where
  "stored_file e file =
     (let name = storage_filename (now_filename e) (math_random e) file in
      \<lparr>fieldname = fieldname file,
       originalname = originalname file,
       mimetype = mimetype file,
       content = content file,
       destination = uploadDir e,
       filename = name,
       path = path_join [uploadDir e, name],
       file_size = length (content file)\<rparr>)"

definition upload_single ::
    "env \<Rightarrow> server_state \<Rightarrow> file_part option \<Rightarrow> (js_error + req_file option) \<times> server_state" where
  "upload_single e s p =
     (case p of
        None \<Rightarrow> (Inr None, s)
      | Some file \<Rightarrow>
          if originalname file = [] then (Inr None, s)
          else if fieldname file \<noteq> ''file''
            then (Inl (MulterError ''LIMIT_UNEXPECTED_FILE'' ''Unexpected field''), s)
          else
            (case fileFilter file of
               Reject err \<Rightarrow>
                 (Inl err, s\<lparr>trace := trace s @ [FileFilter (originalname file)]\<rparr>)
             | Accept \<Rightarrow>
                 let name = storage_filename (now_filename e) (math_random e) file in
                 (case write_error e of
                    Some err \<Rightarrow>
                      (Inl err, s\<lparr>trace := trace s @ [FileFilter (originalname file)]\<rparr>)
                  | None \<Rightarrow>
                      if fileSize < length (content file) then
                        (Inl (MulterError ''LIMIT_FILE_SIZE'' ''File too large''),
                         s\<lparr>disk := AList.delete name
                                     (AList.update name (take fileSize (content file)) (disk s)),
                           trace := trace s @
                             [FileFilter (originalname file), DiskWrite name, DiskUnlink name]\<rparr>)
                      else
                        (Inr (Some (stored_file e file)),
                         s\<lparr>disk := AList.update name (content file) (disk s),
                           trace := trace s @
                             [FileFilter (originalname file), DiskWrite name]\<rparr>))))"

subsection \<open>The upload handler (lines 68-142)\<close>

text \<open>The exception thrown while the handler logs the file details (lines 93-112), if any:
  only \<open>fs.statSync\<close> can throw there.\<close>

definition log_file_details :: "env \<Rightarrow> req_file option \<Rightarrow> js_error option" where
  "log_file_details e file =
     (case file of
        None \<Rightarrow> None
      | Some f \<Rightarrow>
          let filePath = path_join [uploadDir e, filename f] in
          if existsSync e filePath
          then (case statSync e filePath of Inl err \<Rightarrow> Some err | Inr stats \<Rightarrow> None)
          else None)"

definition upload_result :: "env \<Rightarrow> req_file \<Rightarrow> (string \<times> json) list" where
  "upload_result e f =
     [(''success'', JBool True),
      (''filename'', JStr (filename f)),
      (''originalName'', JStr (originalname f)),
      (''size'', JNum (int (file_size f))),
      (''mimetype'', JStr (mimetype f)),
      (''url'', JStr (''/uploads/'' @ filename f)),
      (''uploadedAt'', JStr (now_iso e)),
      (''uploadTime'', JStr (number_to_string (int (now_end e) - int (now_start e)) @ ''ms''))]"

definition upload_handler ::
    "env \<Rightarrow> server_state \<Rightarrow> string \<Rightarrow> req_file option \<Rightarrow> (js_error + response) \<times> server_state" where
  "upload_handler e s client file =
     (if uploadSessions s client \<noteq> None then
        (Inr (json_reply 429
               [(''success'', JBool False),
                (''error'', JStr ''Upload already in progress. Please wait.'')]),
         s\<lparr>trace := trace s @ [SessionsHas client]\<rparr>)
      else
        let sessionId = client @ number_to_string (int (now_session e));
            s1 = s\<lparr>uploadSessions := (uploadSessions s)(client \<mapsto> sessionId),
                   trace := trace s @ [SessionsHas client, SessionsSet client]\<rparr>
        in (case log_file_details e file of
              Some err \<Rightarrow> (Inl err, s1)
            | None \<Rightarrow>
                (case file of
                   None \<Rightarrow>
                     (Inr (json_reply 400
                            [(''success'', JBool False),
                             (''error'', JStr ''No file uploaded or invalid file type'')]),
                      s1\<lparr>uploadSessions := (uploadSessions s1)(client := None),
                         trace := trace s1 @ [SessionsDelete client]\<rparr>)
                 | Some f \<Rightarrow>
                     (Inr (json_reply 200 (upload_result e f)),
                      s1\<lparr>uploadSessions := (uploadSessions s1)(client := None),
                         trace := trace s1 @ [SessionsDelete client]\<rparr>))))"

subsection \<open>The global error handler (lines 221-242)\<close>

definition error_handler :: "js_error \<Rightarrow> response" where
  "error_handler error =
     (case error of
        MulterError code message \<Rightarrow>
          if code = ''LIMIT_FILE_SIZE''
          then json_reply 400
                 [(''success'', JBool False),
                  (''error'', JStr ''File too large. Maximum size is 10MB.'')]
          else json_reply 400
                 [(''success'', JBool False), (''error'', JStr (''Upload error: '' @ message))]
      | _ \<Rightarrow>
          json_reply 500 [(''success'', JBool False), (''error'', JStr ''Internal server error'')])"

text \<open>\<open>POST /upload\<close>: the multer stage, then the handler; an error of either goes to the
  error handler.\<close>

definition post_upload ::
    "env \<Rightarrow> server_state \<Rightarrow> request \<Rightarrow> (js_error + response) \<times> server_state" where
  "post_upload e s req =
     (case upload_single e s (part req) of
        (Inl err, s1) \<Rightarrow> (Inl err, s1)
      | (Inr file, s1) \<Rightarrow> upload_handler e s1 (ip req) file)"

text \<open>The response the client of \<open>POST /upload\<close> receives, and the state afterwards.\<close>

definition upload_request :: "env \<Rightarrow> server_state \<Rightarrow> request \<Rightarrow> response \<times> server_state" where
  "upload_request e s req =
     (case post_upload e s req of
        (Inl err, s') \<Rightarrow> (error_handler err, s')
      | (Inr res, s') \<Rightarrow> (res, s'))"

text \<open>A sequence of upload requests, each with what it reads from outside: the final
  state and the responses in order.\<close>

fun uploads :: "server_state \<Rightarrow> (env \<times> request) list \<Rightarrow> server_state \<times> response list" where
  "uploads s [] = (s, [])"
| "uploads s ((e, req) # rest) =
     (case upload_request e s req of
        (res, s1) \<Rightarrow> (case uploads s1 rest of (s2, others) \<Rightarrow> (s2, res # others)))"

text \<open>The name the \<open>filename\<close> callback gives to the file of a request.\<close>

definition stored_name :: "env \<times> request \<Rightarrow> string" where
  "stored_name er =
     (case part (snd er) of
        None \<Rightarrow> []
      | Some file \<Rightarrow> storage_filename (now_filename (fst er)) (math_random (fst er)) file)"

subsection \<open>Listing (lines 144-167)\<close>

text \<open>
  \<open>files.map(...)\<close> with \<open>fs.statSync\<close> in its body: the first entry whose \<open>statSync\<close>
  throws ends the map with that exception.
\<close>

fun file_records :: "env \<Rightarrow> string list \<Rightarrow> js_error + json list" where
  "file_records e [] = Inr []"
| "file_records e (file # files) =
     (case statSync e (path_join [uploadDir e, file]) of
        Inl err \<Rightarrow> Inl err
      | Inr sz \<Rightarrow>
          (case file_records e files of
             Inl err \<Rightarrow> Inl err
           | Inr fileList \<Rightarrow>
               Inr (JObj [(''name'', JStr file),
                          (''url'', JStr (''/uploads/'' @ file)),
                          (''size'', JNum (int sz))] # fileList)))"

text \<open>The body of the handler runs in the callback of \<open>fs.readdir\<close>, outside the call of the
  handler: Express does not catch what is thrown there.\<close>

definition get_uploads :: "env \<Rightarrow> step" where
  "get_uploads e =
     (case readdir e (uploadDir e) of
        Inl err \<Rightarrow>
          End (json_reply 500
                 [(''success'', JBool False),
                  (''error'', JStr ''Failed to read uploads directory'')])
      | Inr files \<Rightarrow>
          (case file_records e files of
             Inl err \<Rightarrow> Crash err
           | Inr fileList \<Rightarrow>
               End (json_reply 200
                      [(''success'', JBool True),
                       (''count'', JNum (int (length fileList))),
                       (''files'', JArr fileList)])))"

text \<open>The answers of the file system for a storage directory that holds \<open>d\<close> and that no
  other process touches.\<close>

definition dir_readdir :: "(string \<times> string) list \<Rightarrow> js_error + string list" where
  "dir_readdir d = Inr (map fst d)"

definition dir_statSync :: "string \<Rightarrow> (string \<times> string) list \<Rightarrow> string \<Rightarrow> js_error + nat" where
  "dir_statSync dir d p =
     (case filter (\<lambda>entry. path_join [dir, fst entry] = p) d of
        [] \<Rightarrow> Inl (SystemError ''ENOENT'')
      | entry # _ \<Rightarrow> Inr (length (snd entry)))"

subsection \<open>Retrieval (lines 169-185)\<close>

definition send_file :: "env \<Rightarrow> string \<Rightarrow> step" where
  "send_file e p =
     (case sendFile e p of
        Sent \<Rightarrow> End \<lparr>status = 200, payload = FileBody p\<rparr>
      | SentPart \<Rightarrow> End \<lparr>status = 206, payload = FilePart p\<rparr>
      | NotModified \<Rightarrow> End \<lparr>status = 304, payload = NoBody\<rparr>
      | SendSkipped \<Rightarrow> Next
      | SendFailed err \<Rightarrow> Fail err)"

definition get_upload_file :: "env \<Rightarrow> string \<Rightarrow> step" where
  "get_upload_file e name =
     (let filePath = path_join [uploadDir e, name] in
      if indexOf filePath (uploadDir e) \<noteq> 0
        then End (json_reply 403 [(''error'', JStr ''Access denied'')])
      else if \<not> existsSync e filePath
        then End (json_reply 404 [(''error'', JStr ''File not found'')])
      else send_file e filePath)"

subsection \<open>The application: its layers in the order of registration\<close>

datatype layer =
    Cors                     \<comment> \<open>line 11\<close>
  | JsonParser               \<comment> \<open>line 12\<close>
  | UrlencodedParser         \<comment> \<open>line 13\<close>
  | Static                   \<comment> \<open>line 16\<close>
  | GetIndex                 \<comment> \<open>line 63\<close>
  | PostUpload               \<comment> \<open>line 68\<close>
  | GetUploads               \<comment> \<open>line 145\<close>
  | GetUploadFile            \<comment> \<open>line 171\<close>
  | GetHealth                \<comment> \<open>line 188\<close>
  | NotFound                 \<comment> \<open>line 197\<close>
  | MethodNotAllowed         \<comment> \<open>line 212\<close>
  | ErrorHandler             \<comment> \<open>line 222\<close>

definition app_stack :: "layer list" where
  "app_stack =
     [Cors, JsonParser, UrlencodedParser, Static, GetIndex, PostUpload, GetUploads,
      GetUploadFile, GetHealth, NotFound, MethodNotAllowed, ErrorHandler]"

text \<open>
  Express matches a route path without regard to case and with one optional trailing
  slash; \<open>base\<close> is the route path without its own trailing slash. A \<open>get\<close> route also
  answers \<open>HEAD\<close>.
\<close>

definition path_is :: "string \<Rightarrow> string \<Rightarrow> bool" where
  "path_is base p =
     (map canonicalize p = map canonicalize base
      \<or> map canonicalize p = map canonicalize (base @ ''/''))"

definition is_get :: "request \<Rightarrow> bool" where
  "is_get req = (req_method req = ''GET'' \<or> req_method req = ''HEAD'')"

text \<open>The segment that \<open>/uploads/:filename\<close> binds to \<open>filename\<close>, before it is decoded.\<close>

definition filename_segment :: "string \<Rightarrow> string option" where
  "filename_segment p =
     (if map canonicalize (take 9 p) = map canonicalize ''/uploads/'' then
        let rest = drop 9 p;
            seg = (if rest \<noteq> [] \<and> last rest = CHR ''/'' then butlast rest else rest)
        in if seg \<noteq> [] \<and> CHR ''/'' \<notin> set seg then Some seg else None
      else None)"

definition hex_value :: "char \<Rightarrow> nat option" where
  "hex_value c =
     (let n = (of_char c :: nat) in
      if 48 \<le> n \<and> n \<le> 57 then Some (n - 48)
      else if 65 \<le> n \<and> n \<le> 70 then Some (n - 55)
      else if 97 \<le> n \<and> n \<le> 102 then Some (n - 87)
      else None)"

text \<open>
  \<open>decodeURIComponent\<close>, with which Express decodes the parameter of a route; \<open>None\<close> is
  its \<open>URIError\<close>. A \<open>%\<close> must be followed by two hexadecimal digits, and the escaped
  bytes from 128 on must form well-formed UTF-8 sequences, each byte of a sequence being
  an escape itself: a lead byte \<open>C2\<close>-\<open>DF\<close> with one continuation byte, \<open>E0\<close>-\<open>EF\<close> with two,
  \<open>F0\<close>-\<open>F4\<close> with three, the continuation bytes in \<open>80\<close>-\<open>BF\<close>, and the first of them
  narrowed after \<open>E0\<close>, \<open>ED\<close>, \<open>F0\<close> and \<open>F4\<close> (no overlong form, no surrogate, nothing
  above \<open>U+10FFFF\<close>).
\<close>

datatype token =
    Raw char                 \<comment> \<open>a character that stands for itself\<close>
  | Esc nat                  \<comment> \<open>the byte of an escape \<open>%XX\<close>\<close>

fun percent_tokens :: "string \<Rightarrow> token list option" where
  "percent_tokens [] = Some []"
| "percent_tokens (c # s) =
     (if c = CHR ''%'' then
        (case s of
           h # l # rest \<Rightarrow>
             (case (hex_value h, hex_value l) of
                (Some a, Some b) \<Rightarrow> map_option (\<lambda>t. Esc (16 * a + b) # t) (percent_tokens rest)
              | _ \<Rightarrow> None)
         | _ \<Rightarrow> None)
      else map_option (\<lambda>t. Raw c # t) (percent_tokens s))"

definition continuation :: "nat \<Rightarrow> bool" where
  "continuation b = (128 \<le> b \<and> b \<le> 191)"

text \<open>The range of the first continuation byte after the lead byte \<open>b\<close>.\<close>

definition second_byte :: "nat \<Rightarrow> nat \<Rightarrow> bool" where
  "second_byte b c =
     (if b = 224 then 160 \<le> c \<and> c \<le> 191
      else if b = 237 then 128 \<le> c \<and> c \<le> 159
      else if b = 240 then 144 \<le> c \<and> c \<le> 191
      else if b = 244 then 128 \<le> c \<and> c \<le> 143
      else continuation c)"

fun utf8_tokens :: "token list \<Rightarrow> string option" where
  "utf8_tokens [] = Some []"
| "utf8_tokens (Raw c # ts) = map_option (\<lambda>s. c # s) (utf8_tokens ts)"
| "utf8_tokens (Esc b # ts) =
     (if b < 128 then map_option (\<lambda>s. char_of b # s) (utf8_tokens ts)
      else if 194 \<le> b \<and> b \<le> 223 then
        (case ts of
           Esc c1 # rest \<Rightarrow>
             if continuation c1
             then map_option (\<lambda>s. char_of b # char_of c1 # s) (utf8_tokens rest)
             else None
         | _ \<Rightarrow> None)
      else if 224 \<le> b \<and> b \<le> 239 then
        (case ts of
           Esc c1 # Esc c2 # rest \<Rightarrow>
             if second_byte b c1 \<and> continuation c2
             then map_option (\<lambda>s. char_of b # char_of c1 # char_of c2 # s) (utf8_tokens rest)
             else None
         | _ \<Rightarrow> None)
      else if 240 \<le> b \<and> b \<le> 244 then
        (case ts of
           Esc c1 # Esc c2 # Esc c3 # rest \<Rightarrow>
             if second_byte b c1 \<and> continuation c2 \<and> continuation c3
             then map_option (\<lambda>s. char_of b # char_of c1 # char_of c2 # char_of c3 # s)
                    (utf8_tokens rest)
             else None
         | _ \<Rightarrow> None)
      else None)"

definition decodeURIComponent :: "string \<Rightarrow> string option" where
  "decodeURIComponent s =
     (case percent_tokens s of None \<Rightarrow> None | Some ts \<Rightarrow> utf8_tokens ts)"

fun applies :: "layer \<Rightarrow> request \<Rightarrow> bool" where
  "applies GetIndex req = (is_get req \<and> path_is [] (req_path req))"
| "applies PostUpload req = (req_method req = ''POST'' \<and> path_is ''/upload'' (req_path req))"
| "applies GetUploads req = (is_get req \<and> path_is ''/uploads'' (req_path req))"
| "applies GetUploadFile req = (is_get req \<and> filename_segment (req_path req) \<noteq> None)"
| "applies GetHealth req = (is_get req \<and> path_is ''/health'' (req_path req))"
| "applies ErrorHandler req = False"
| "applies other req = True"

text \<open>A request matches a defined route when one of the five routes applies to it.\<close>

definition matches_route :: "request \<Rightarrow> bool" where
  "matches_route req =
     list_ex (\<lambda>l. applies l req) [GetIndex, PostUpload, GetUploads, GetUploadFile, GetHealth]"

text \<open>
  The library layers, by what they do with a request: \<open>cors()\<close> answers every \<open>OPTIONS\<close>
  request itself (204, no body) and passes every other request on; the body parsers pass
  a request on unless they fail on its body; \<open>express.static\<close> passes on every request
  that is neither \<open>GET\<close> nor \<open>HEAD\<close>, and answers the others as \<open>static_result\<close> tells.
  A layer that ends the request hands its response to \<open>res.json\<close>, \<open>res.sendFile\<close> or
  \<open>res.end\<close>; what the client receives of it is the matter of \<open>run_stack\<close> below.
\<close>

fun handle :: "layer \<Rightarrow> env \<Rightarrow> server_state \<Rightarrow> request \<Rightarrow> step \<times> server_state" where
  "handle Cors e s req =
     (if req_method req = ''OPTIONS'' then (End \<lparr>status = 204, payload = NoBody\<rparr>, s)
      else (Next, s))"
| "handle JsonParser e s req =
     (if malformed_body req then (Fail (Error ''entity.parse.failed''), s) else (Next, s))"
| "handle UrlencodedParser e s req =
     (if malformed_body req then (Fail (Error ''entity.parse.failed''), s) else (Next, s))"
| "handle Static e s req =
     (if is_get req then
        (case serve_static e (req_path req) of
           StaticPass \<Rightarrow> (Next, s)
         | StaticFile p \<Rightarrow> (End \<lparr>status = 200, payload = FileBody p\<rparr>, s)
         | StaticPart p \<Rightarrow> (End \<lparr>status = 206, payload = FilePart p\<rparr>, s)
         | StaticNotModified \<Rightarrow> (End \<lparr>status = 304, payload = NoBody\<rparr>, s)
         | StaticRedirect location \<Rightarrow>
             (End \<lparr>status = 301, payload = RedirectPage location\<rparr>, s)
         | StaticFail err \<Rightarrow> (Fail err, s))
      else (Next, s))"
| "handle GetIndex e s req = (send_file e (path_join [dirname e, ''../public/index.html'']), s)"
| "handle PostUpload e s req =
     (case post_upload e s req of
        (Inl err, s') \<Rightarrow> (Fail err, s')
      | (Inr res, s') \<Rightarrow> (End res, s'))"
| "handle GetUploads e s req = (get_uploads e, s)"
| "handle GetUploadFile e s req =
     (case filename_segment (req_path req) of
        None \<Rightarrow> (Next, s)
      | Some seg \<Rightarrow>
          (case decodeURIComponent seg of
             None \<Rightarrow> (Fail (Error ''URIError''), s)
           | Some name \<Rightarrow> (get_upload_file e name, s)))"
| "handle GetHealth e s req =
     (End (json_reply 200
             [(''status'', JStr ''OK''),
              (''timestamp'', JStr (now_iso e)),
              (''uploadsDir'', JStr (uploadDir e))]), s)"
| "handle NotFound e s req =
     (End (json_reply 404
             [(''success'', JBool False),
              (''error'', JStr (''Route '' @ req_path req @ '' not found'')),
              (''available'',
               JObj [(''GET /'', JStr ''Serve main page''),
                     (''POST /upload'', JStr ''Upload files''),
                     (''GET /uploads'', JStr ''List uploaded files''),
                     (''GET /health'', JStr ''Health check'')])]), s)"
| "handle MethodNotAllowed e s req =
     (End (json_reply 405
             [(''success'', JBool False),
              (''error'',
               JStr (''Method '' @ req_method req @ '' not allowed for '' @ req_path req)),
              (''allowedMethods'', JArr [JStr ''GET'', JStr ''POST''])]), s)"
| "handle ErrorHandler e s req = (Next, s)"

datatype outcome =
    Replied response         \<comment> \<open>what the client receives\<close>
  | Uncaught js_error        \<comment> \<open>no response: the exception reaches the process\<close>
  | Unhandled "js_error option"
      \<comment> \<open>no layer ended the request: the final handler of Express answers, with this
          error pending\<close>

text \<open>The response to a \<open>HEAD\<close> request goes out without its body.\<close>

definition sent :: "request \<Rightarrow> response \<Rightarrow> response" where
  "sent req res = (if req_method req = ''HEAD'' then res\<lparr>payload := NoBody\<rparr> else res)"

text \<open>
  The router walks the stack. While no error is pending, the layers that apply to the
  request run in order until one ends the response; once an error is pending, only the
  error handler runs. The result names the layer that ended the request, \<open>None\<close> when
  the request runs off the end of the stack.
\<close>

fun run_stack ::
    "layer list \<Rightarrow> env \<Rightarrow> request \<Rightarrow> js_error option \<Rightarrow> server_state
       \<Rightarrow> (layer option \<times> outcome) \<times> server_state" where
  "run_stack [] e req pending s = ((None, Unhandled pending), s)"
| "run_stack (l # ls) e req pending s =
     (case pending of
        Some err \<Rightarrow>
          if l = ErrorHandler then ((Some l, Replied (sent req (error_handler err))), s)
          else run_stack ls e req pending s
      | None \<Rightarrow>
          if \<not> applies l req then run_stack ls e req None s
          else
            (case handle l e s req of
               (Next, s') \<Rightarrow> run_stack ls e req None s'
             | (Fail err, s') \<Rightarrow> run_stack ls e req (Some err) s'
             | (End res, s') \<Rightarrow> ((Some l, Replied (sent req res)), s')
             | (Crash err, s') \<Rightarrow> ((Some l, Uncaught err), s')))"

definition app :: "env \<Rightarrow> server_state \<Rightarrow> request \<Rightarrow> (layer option \<times> outcome) \<times> server_state" where
  "app e s req = run_stack app_stack e req None s"

subsection \<open>The validation rule as the specification words it\<close>

definition spec_allowed_mime_types :: "string list" where
  "spec_allowed_mime_types =
     [''image/jpeg'', ''image/jpg'', ''image/png'', ''image/gif'', ''image/webp'',
      ''model/gltf'', ''model/glb'', ''model/obj'']"

definition spec_allowed_extensions :: "string list" where
  "spec_allowed_extensions =
     [''.jpg'', ''.jpeg'', ''.png'', ''.gif'', ''.webp'', ''.gltf'', ''.glb'', ''.obj'']"

definition ascii_lower :: "char \<Rightarrow> char" where
  "ascii_lower c =
     (let n = (of_char c :: nat) in if 65 \<le> n \<and> n \<le> 90 then char_of (n + 32) else c)"

definition ends_with_ci :: "string \<Rightarrow> string \<Rightarrow> bool" where
  "ends_with_ci name ext = suffix (map ascii_lower ext) (map ascii_lower name)"

definition spec_accepts :: "file_part \<Rightarrow> bool" where
  "spec_accepts file =
     (mimetype file \<in> set spec_allowed_mime_types
      \<or> (\<exists>ext \<in> set spec_allowed_extensions. ends_with_ci (originalname file) ext))"

text \<open>The codes of the two case mappings.\<close>

definition upper_code :: "nat \<Rightarrow> nat" where
  "upper_code n = (if 97 \<le> n \<and> n \<le> 122 then n - 32 else n)"

definition lower_code :: "nat \<Rightarrow> nat" where
  "lower_code n = (if 65 \<le> n \<and> n \<le> 90 then n + 32 else n)"

subsection \<open>Example inputs\<close>

definition holiday :: file_part where
  "holiday =
     \<lparr>fieldname = ''file'', originalname = ''Holiday.PNG'',
      mimetype = ''application/octet-stream'', content = ''abc''\<rparr>"

definition setup_exe :: file_part where
  "setup_exe =
     \<lparr>fieldname = ''file'', originalname = ''setup.exe'',
      mimetype = ''application/octet-stream'', content = ''abc''\<rparr>"

definition photo_png :: file_part where
  "photo_png =
     \<lparr>fieldname = ''file'', originalname = ''photo.png'', mimetype = ''image/png'',
      content = replicate 2097152 CHR ''x''\<rparr>"

definition s0 :: server_state where
  "s0 = \<lparr>uploadSessions = Map.empty, disk = [], trace = []\<rparr>"

text \<open>An environment in which the file system answers every question about a stored file
  with success, and \<open>public/\<close> holds nothing but the storage directory.\<close>

definition env0 :: env where
  "env0 =
     \<lparr>dirname = ''/srv/app/src'',
      now_filename = 1700000000000,
      math_random = 1 / 2,
      write_error = None,
      now_start = 1700000000004,
      now_session = 1700000000005,
      now_iso = ''2023-11-14T22:13:20.006Z'',
      now_end = 1700000000007,
      existsSync = (\<lambda>p. True),
      statSync = (\<lambda>p. Inr 2097152),
      readdir = (\<lambda>p. Inr []),
      sendFile = (\<lambda>p. Sent),
      serve_static =
        (\<lambda>p. if p = ''/uploads'' then StaticRedirect ''/uploads/'' else StaticPass)\<rparr>"

definition upload_of :: "file_part \<Rightarrow> request" where
  "upload_of file =
     \<lparr>req_method = ''POST'', req_path = ''/upload'', ip = ''203.0.113.7'',
      part = Some file, malformed_body = False\<rparr>"

definition big_exe :: file_part where
  "big_exe =
     \<lparr>fieldname = ''file'', originalname = ''setup.exe'',
      mimetype = ''application/octet-stream'', content = replicate 10485761 CHR ''x''\<rparr>"

definition big_png :: file_part where
  "big_png =
     \<lparr>fieldname = ''file'', originalname = ''poster.png'', mimetype = ''image/png'',
      content = replicate 10485761 CHR ''x''\<rparr>"

text \<open>A state in which the map holds an entry for the client of \<open>upload_of\<close>: an earlier
  request of that client left it behind.\<close>

definition s_busy :: server_state where
  "s_busy =
     \<lparr>uploadSessions = [''203.0.113.7'' \<mapsto> ''203.0.113.71699999999999''], disk = [],
      trace = []\<rparr>"

text \<open>An environment in which the stored file is gone when \<open>fs.statSync\<close> asks for it,
  after \<open>fs.existsSync\<close> has seen it: another process removed it in between.\<close>

definition env_race :: env where
  "env_race = env0\<lparr>statSync := (\<lambda>p. Inl (SystemError ''ENOENT''))\<rparr>"

text \<open>The events of the multer stage, and the events of the handler.\<close>

fun is_file_event :: "event \<Rightarrow> bool" where
  "is_file_event (FileFilter n) = True"
| "is_file_event (DiskWrite n) = True"
| "is_file_event (DiskUnlink n) = True"
| "is_file_event other = False"

fun is_gate_event :: "event \<Rightarrow> bool" where
  "is_gate_event (SessionsHas c) = True"
| "is_gate_event (SessionsSet c) = True"
| "is_gate_event (SessionsDelete c) = True"
| "is_gate_event other = False"

subsection \<open>Containment as the specification words it\<close>

text \<open>A resolved absolute path lies within a directory when it is the directory or
  continues it behind a separator.\<close>

definition inside_dir :: "string \<Rightarrow> string \<Rightarrow> bool" where
  "inside_dir dir p = (p = dir \<or> prefix (dir @ ''/'') p)"

text \<open>A request for a file of a sibling directory whose name starts with the name of the
  storage directory, and an environment in which that file does not exist.\<close>

definition get_sibling :: request where
  "get_sibling =
     \<lparr>req_method = ''GET'', req_path = ''/uploads/..%2Fuploads-old%2Fsecret.png'',
      ip = ''203.0.113.7'', part = None, malformed_body = False\<rparr>"

definition env_absent :: env where
  "env_absent = env0\<lparr>existsSync := (\<lambda>p. False)\<rparr>"

text \<open>An environment in which the directory scan lists a file that is gone when
  \<open>fs.statSync\<close> asks for it.\<close>

definition env_gone :: env where
  "env_gone = env_race\<lparr>readdir := (\<lambda>p. Inr [''1700000000000-500000000.png''])\<rparr>"

definition get_list :: request where
  "get_list =
     \<lparr>req_method = ''GET'', req_path = ''/uploads/'', ip = ''203.0.113.7'', part = None,
      malformed_body = False\<rparr>"

text \<open>Whether a request ended in the 405 layer or with status 405.\<close>

definition answered_405 :: "layer option \<times> outcome \<Rightarrow> bool" where
  "answered_405 r =
     (fst r = Some MethodNotAllowed
      \<or> (case snd r of
            Replied res \<Rightarrow> status res = 405
          | Uncaught err \<Rightarrow> False
          | Unhandled pending \<Rightarrow> False))"

text \<open>Whether a request was ended by a layer of the application, and not with 405.\<close>

definition settled :: "layer option \<times> outcome \<Rightarrow> bool" where
  "settled r =
     (\<not> answered_405 r
      \<and> (case snd r of Unhandled pending \<Rightarrow> False | Replied res \<Rightarrow> True | Uncaught err \<Rightarrow> True))"

text \<open>Requests that match no route: a pre-flight, a static file (in an environment in which
  \<open>public/\<close> holds \<open>script.js\<close>), and a path nobody serves, asked for with \<open>DELETE\<close> and
  with \<open>HEAD\<close>.\<close>

definition options_nowhere :: request where
  "options_nowhere =
     \<lparr>req_method = ''OPTIONS'', req_path = ''/nowhere'', ip = ''203.0.113.7'', part = None,
      malformed_body = False\<rparr>"

definition get_script :: request where
  "get_script =
     \<lparr>req_method = ''GET'', req_path = ''/script.js'', ip = ''203.0.113.7'', part = None,
      malformed_body = False\<rparr>"

definition env_static :: env where
  "env_static =
     env0\<lparr>serve_static :=
            (\<lambda>p. if p = ''/script.js'' then StaticFile ''/srv/app/public/script.js''
                 else serve_static env0 p)\<rparr>"

definition delete_nowhere :: request where
  "delete_nowhere =
     \<lparr>req_method = ''DELETE'', req_path = ''/nowhere'', ip = ''203.0.113.7'', part = None,
      malformed_body = False\<rparr>"

definition head_nowhere :: request where
  "head_nowhere =
     \<lparr>req_method = ''HEAD'', req_path = ''/nowhere'', ip = ''203.0.113.7'', part = None,
      malformed_body = False\<rparr>"

text \<open>The environment \<open>e\<close> with the file system answering for a storage directory that
  holds \<open>d\<close>.\<close>

definition quiet :: "env \<Rightarrow> (string \<times> string) list \<Rightarrow> env" where
  "quiet e d =
     e\<lparr>existsSync := (\<lambda>p. \<not> isl (dir_statSync (uploadDir e) d p)),
       statSync := dir_statSync (uploadDir e) d,
       readdir := (\<lambda>p. dir_readdir d)\<rparr>"

text \<open>Two uploads of the same file in the same millisecond, with the same value of
  \<open>Math.random()\<close>.\<close>

definition twice :: "(env \<times> request) list" where
  "twice = [(env0, upload_of photo_png), (env0, upload_of photo_png)]"

text \<open>Two uploads a millisecond apart.\<close>

definition env1 :: env where
  "env1 = env0\<lparr>now_filename := 1700000000001\<rparr>"

definition apart :: "(env \<times> request) list" where
  "apart = [(env0, upload_of photo_png), (env1, upload_of photo_png)]"

text \<open>An environment in which the directory scan lists one stored file.\<close>

definition env_listed :: env where
  "env_listed = env0\<lparr>readdir := (\<lambda>p. Inr [''1700000000000-500000000.png''])\<rparr>"

section \<open>Theorems\<close>

lemma of_char_lt_256: "(of_char c :: nat) < 256"
proof -
  have "(of_char c :: nat) = of_char c mod 256"
    by (simp only: of_char_mod_256)
  also have "\<dots> < 256" by simp
  finally show ?thesis .
qed

lemma canonicalize_code: "canonicalize c = char_of (upper_code (of_char c))"
  by (simp add: canonicalize_def upper_code_def Let_def)

lemma ascii_lower_code: "ascii_lower c = char_of (lower_code (of_char c))"
  by (simp add: ascii_lower_def lower_code_def Let_def)

lemma char_of_inj_256:
  fixes m n :: nat
  assumes "m < 256" "n < 256"
  shows "(char_of m :: char) = char_of n \<longleftrightarrow> m = n"
proof
  assume "(char_of m :: char) = char_of n"
  then have "(of_char (char_of m :: char) :: nat) = of_char (char_of n :: char)" by simp
  then have "m mod 256 = n mod 256" by (simp only: of_char_of)
  with assms show "m = n" by simp
qed simp

lemma upper_lower_codes:
  "upper_code m = upper_code n \<longleftrightarrow> lower_code m = lower_code n"
  unfolding upper_code_def lower_code_def
  by (cases "97 \<le> m \<and> m \<le> 122"; cases "97 \<le> n \<and> n \<le> 122";
      cases "65 \<le> m \<and> m \<le> 90"; cases "65 \<le> n \<and> n \<le> 90"; simp; arith)

lemma upper_code_lt: "n < 256 \<Longrightarrow> upper_code n < 256"
  unfolding upper_code_def by arith

lemma lower_code_lt: "n < 256 \<Longrightarrow> lower_code n < 256"
  unfolding lower_code_def by arith

lemma canonicalize_eq_iff:
  "canonicalize a = canonicalize b \<longleftrightarrow> ascii_lower a = ascii_lower b"
proof -
  note ua = upper_code_lt [OF of_char_lt_256 [of a]]
    and ub = upper_code_lt [OF of_char_lt_256 [of b]]
    and la = lower_code_lt [OF of_char_lt_256 [of a]]
    and lb = lower_code_lt [OF of_char_lt_256 [of b]]
  show ?thesis
    by (simp only: canonicalize_code ascii_lower_code char_of_inj_256 [OF ua ub]
        char_of_inj_256 [OF la lb] upper_lower_codes)
qed

lemma map_canonicalize_eq_iff:
  "map canonicalize xs = map canonicalize ys \<longleftrightarrow> map ascii_lower xs = map ascii_lower ys"
proof (induction xs arbitrary: ys)
  case Nil
  then show ?case by simp
next
  case (Cons x xs)
  then show ?case by (cases ys) (simp_all add: canonicalize_eq_iff)
qed

lemma consumed_to_end:
  "(map f (take (length alt) rest) = map f alt \<and> length rest \<le> length alt)
     \<longleftrightarrow> map f rest = map f alt"
proof
  assume a: "map f (take (length alt) rest) = map f alt \<and> length rest \<le> length alt"
  then have "take (length alt) rest = rest" by simp
  with a show "map f rest = map f alt" by simp
next
  assume eq: "map f rest = map f alt"
  then have "length rest = length alt" by (rule map_eq_imp_length_eq)
  with eq show "map f (take (length alt) rest) = map f alt \<and> length rest \<le> length alt"
    by simp
qed

lemma of_char_dot: "(of_char c :: nat) = 46 \<longleftrightarrow> c = CHR ''.''"
proof
  assume "(of_char c :: nat) = 46"
  then have "(of_char c :: nat) = of_char CHR ''.''" by simp
  then show "c = CHR ''.''" by (simp only: of_char_eq_iff)
qed simp

lemma ascii_lower_dot: "ascii_lower c = CHR ''.'' \<longleftrightarrow> c = CHR ''.''"
proof -
  have low: "lower_code (of_char c) < 256"
    by (rule lower_code_lt [OF of_char_lt_256])
  have "ascii_lower c = CHR ''.'' \<longleftrightarrow> (of_char (ascii_lower c) :: nat) = 46"
    by (simp only: of_char_dot)
  also have "\<dots> \<longleftrightarrow> lower_code (of_char c) = 46"
    using low by (simp only: ascii_lower_code of_char_of) simp
  also have "\<dots> \<longleftrightarrow> (of_char c :: nat) = 46"
    unfolding lower_code_def by arith
  finally show ?thesis by (simp only: of_char_dot)
qed

subsection \<open>The regular expression matches the suffixes it names\<close>

lemma matches_here_iff:
  "matches_here s \<longleftrightarrow>
     (\<exists>alt \<in> set alternatives. map ascii_lower s = CHR ''.'' # map ascii_lower alt)"
proof (cases s)
  case Nil
  then show ?thesis by (simp add: matches_here_def)
next
  case (Cons c rest)
  have "matches_here s \<longleftrightarrow>
      c = CHR ''.'' \<and> (\<exists>alt \<in> set alternatives. map canonicalize rest = map canonicalize alt)"
    by (simp add: Cons matches_here_def list_ex_iff consumed_to_end)
  also have "\<dots> \<longleftrightarrow>
      (\<exists>alt \<in> set alternatives.
         ascii_lower c = CHR ''.'' \<and> map ascii_lower rest = map ascii_lower alt)"
    by (auto simp: map_canonicalize_eq_iff ascii_lower_dot)
  finally show ?thesis by (simp add: Cons)
qed

lemma regex_match_iff: "regex_match s \<longleftrightarrow> (\<exists>t. suffix t s \<and> matches_here t)"
proof (induction s)
  case Nil
  then show ?case by simp
next
  case (Cons c s)
  show ?case
    by (auto simp: Cons.IH suffix_Cons)
qed

lemma regex_match_suffix:
  "regex_match s \<longleftrightarrow>
     (\<exists>alt \<in> set alternatives. suffix (CHR ''.'' # map ascii_lower alt) (map ascii_lower s))"
proof
  assume "regex_match s"
  then obtain t alt where t: "suffix t s" and alt: "alt \<in> set alternatives"
    and eq: "map ascii_lower t = CHR ''.'' # map ascii_lower alt"
    by (auto simp: regex_match_iff matches_here_iff)
  from t have "suffix (map ascii_lower t) (map ascii_lower s)" by (rule map_mono_suffix)
  with alt eq show "\<exists>alt \<in> set alternatives.
      suffix (CHR ''.'' # map ascii_lower alt) (map ascii_lower s)"
    by auto
next
  assume "\<exists>alt \<in> set alternatives. suffix (CHR ''.'' # map ascii_lower alt) (map ascii_lower s)"
  then obtain alt where alt: "alt \<in> set alternatives"
    and suf: "suffix (CHR ''.'' # map ascii_lower alt) (map ascii_lower s)" by blast
  from suffix_map_rightE [OF suf]
  obtain t where t: "suffix t s \<and> CHR ''.'' # map ascii_lower alt = map ascii_lower t" ..
  from t have "map ascii_lower t = CHR ''.'' # map ascii_lower alt" by (simp only:)
  with alt have "matches_here t"
    unfolding matches_here_iff by (rule bexI [rotated])
  with t show "regex_match s"
    unfolding regex_match_iff by (intro exI [of _ t] conjI) (simp_all only:)
qed

lemma spec_extensions_alternatives:
  "spec_allowed_extensions = map (\<lambda>alt. CHR ''.'' # alt) alternatives"
  by (simp add: spec_allowed_extensions_def alternatives_def)

lemma ascii_lower_dot_self: "ascii_lower CHR ''.'' = CHR ''.''"
  by (simp add: ascii_lower_dot)

lemma fileFilter_spec:
  "fileFilter file =
     (if spec_accepts file then Accept
      else Reject (Error ''Only image files and 3D models are allowed!''))"
proof -
  have mime: "list_ex (\<lambda>type. mimetype file = type) allowedTypes
      \<longleftrightarrow> mimetype file \<in> set spec_allowed_mime_types"
    by (auto simp: list_ex_iff allowedTypes_def spec_allowed_mime_types_def)
  have ext: "regex_match (originalname file)
      \<longleftrightarrow> (\<exists>ext \<in> set spec_allowed_extensions. ends_with_ci (originalname file) ext)"
    unfolding regex_match_suffix spec_extensions_alternatives ends_with_ci_def
    by (simp add: ascii_lower_dot_self)
  show ?thesis
    by (simp only: fileFilter_def spec_accepts_def mime ext)
qed

text \<open>
  C4. The type filter accepts a file exactly when its declared mime type is one of the
  eight listed types or its original name ends, without regard to case, in one of the
  eight listed extensions; every other file is rejected with the error
  \<open>Only image files and 3D models are allowed!\<close>.
\<close>

theorem fileFilter_accepts_iff:
  "(fileFilter file = Accept \<longleftrightarrow>
      mimetype file \<in> set spec_allowed_mime_types
      \<or> (\<exists>ext \<in> set spec_allowed_extensions. ends_with_ci (originalname file) ext))
   \<and> (fileFilter file = Accept
      \<or> fileFilter file = Reject (Error ''Only image files and 3D models are allowed!''))"
  using fileFilter_spec by (simp add: spec_accepts_def)

lemma regex_match_holiday: "regex_match ''Holiday.PNG''"
  by code_simp

lemma regex_match_exe: "\<not> regex_match ''setup.exe''"
  by code_simp

theorem fileFilter_accepts_iff_witness:
  "fileFilter holiday = Accept
   \<and> mimetype holiday \<notin> set spec_allowed_mime_types
   \<and> (\<exists>ext \<in> set spec_allowed_extensions. ends_with_ci (originalname holiday) ext)
   \<and> fileFilter setup_exe = Reject (Error ''Only image files and 3D models are allowed!'')
   \<and> \<not> (\<exists>ext \<in> set spec_allowed_extensions. ends_with_ci (originalname setup_exe) ext)"
proof -
  have a: "fileFilter holiday = Accept"
    by (simp add: fileFilter_def holiday_def regex_match_holiday del: regex_match.simps)
  have b: "fileFilter setup_exe = Reject (Error ''Only image files and 3D models are allowed!'')"
    by (simp add: fileFilter_def setup_exe_def regex_match_exe allowedTypes_def del: regex_match.simps)
  have m: "mimetype holiday \<notin> set spec_allowed_mime_types"
    by (simp add: holiday_def spec_allowed_mime_types_def)
  have n: "mimetype setup_exe \<notin> set spec_allowed_mime_types"
    by (simp add: setup_exe_def spec_allowed_mime_types_def)
  from fileFilter_accepts_iff [of holiday] a m
  have c: "\<exists>ext \<in> set spec_allowed_extensions. ends_with_ci (originalname holiday) ext"
    by blast
  from fileFilter_accepts_iff [of setup_exe] b n
  have d: "\<not> (\<exists>ext \<in> set spec_allowed_extensions. ends_with_ci (originalname setup_exe) ext)"
    by simp
  from a b m c d show ?thesis by (intro conjI)
qed

subsection \<open>Stored names\<close>

lemma digits_small: "n < 10 \<Longrightarrow> digits n = [''0123456789'' ! n]"
  by (simp add: digits.simps)

lemma digits_large:
  "\<not> n < 10 \<Longrightarrow> digits n = digits (n div 10) @ [''0123456789'' ! (n mod 10)]"
  by (subst digits.simps) simp

subsection \<open>Rounding to a double\<close>

lemma bit_length_0: "bit_length 0 = 0"
  by (simp add: bit_length.simps [of 0])

lemma bit_length_pos: "0 < n \<Longrightarrow> bit_length n = Suc (bit_length (n div 2))"
  by (simp add: bit_length.simps [of n])

lemma bit_length_bounds:
  "0 < n \<Longrightarrow> 2 ^ (bit_length n - 1) \<le> n \<and> n < 2 ^ bit_length n"
proof (induction n rule: less_induct)
  case (less n)
  show ?case
  proof (cases "n div 2 = 0")
    case True
    with less.prems have "n = 1" by (simp add: div_eq_0_iff)
    then show ?thesis by (simp add: bit_length_pos bit_length_0)
  next
    case False
    then have h: "0 < n div 2" by simp
    from less.prems have "n div 2 < n" by simp
    from less.IH [OF this h]
    have lo: "2 ^ (bit_length (n div 2) - 1) \<le> n div 2"
      and hi: "n div 2 < 2 ^ bit_length (n div 2)" by simp_all
    from h have "bit_length (n div 2) = Suc (bit_length (n div 2 div 2))"
      by (rule bit_length_pos)
    then obtain b where b: "bit_length (n div 2) = Suc b" by blast
    from less.prems have bl: "bit_length n = Suc (Suc b)"
      by (simp add: bit_length_pos b)
    from lo b have "2 ^ b \<le> n div 2" by simp
    then have l: "2 * 2 ^ b \<le> n" by arith
    from hi b have "n div 2 < 2 * 2 ^ b" by simp
    then have u: "n < 2 * (2 * 2 ^ b)" by arith
    from l u show ?thesis by (simp add: bl)
  qed
qed

lemma two_power_less: "(2::nat) ^ a < 2 ^ b \<Longrightarrow> a < b"
  by (rule power_less_imp_less_exp [of 2]) simp_all

lemma bit_length_le: "n < 2 ^ k \<Longrightarrow> bit_length n \<le> k"
proof (cases "n = 0")
  case True
  then show ?thesis by (simp add: bit_length_0)
next
  case False
  assume lt: "n < 2 ^ k"
  from False have "0 < n" by simp
  from bit_length_bounds [OF this] have "2 ^ (bit_length n - 1) \<le> n" by simp
  from this lt have "(2::nat) ^ (bit_length n - 1) < 2 ^ k" by (rule le_less_trans)
  then have "bit_length n - 1 < k" by (rule two_power_less)
  then show ?thesis by arith
qed

lemma bit_length_eq:
  assumes "2 ^ k \<le> n" and "n < 2 ^ Suc k"
  shows "bit_length n = Suc k"
proof -
  have "(0::nat) < 2 ^ k" by simp
  from this assms(1) have pos: "0 < n" by (rule less_le_trans)
  from bit_length_le [OF assms(2)] have le: "bit_length n \<le> Suc k" .
  from bit_length_bounds [OF pos] have "n < 2 ^ bit_length n" by simp
  with assms(1) have "(2::nat) ^ k < 2 ^ bit_length n" by (rule le_less_trans)
  then have "k < bit_length n" by (rule two_power_less)
  with le show ?thesis by arith
qed

lemma pow2_pos: "0 < pow2 k"
  by (simp add: pow2_def)

lemma pow2_nat: "pow2 (int n) = 2 ^ n"
  by (simp add: pow2_def)

lemma pow2_succ: "pow2 (j + 1) = pow2 j * 2"
proof (cases "0 \<le> j")
  case True
  then show ?thesis by (simp add: pow2_def nat_add_distrib)
next
  case False
  then have n: "nat (- j) = Suc (nat (- (j + 1)))" by simp
  show ?thesis
  proof (cases "j + 1 = 0")
    case True
    then have "j = - 1" by simp
    then show ?thesis by (simp add: pow2_def)
  next
    case False
    with \<open>\<not> 0 \<le> j\<close> have "\<not> 0 \<le> j + 1" by simp
    with \<open>\<not> 0 \<le> j\<close> show ?thesis
      unfolding pow2_def by (simp only: if_False n power_Suc)
  qed
qed

lemma pow2_add_nat: "pow2 (k + int n) = pow2 k * 2 ^ n"
proof (induction n)
  case 0
  then show ?case by simp
next
  case (Suc n)
  have "k + int (Suc n) = (k + int n) + 1" by simp
  then have "pow2 (k + int (Suc n)) = pow2 ((k + int n) + 1)" by (rule arg_cong)
  also have "\<dots> = pow2 (k + int n) * 2" by (rule pow2_succ)
  finally show ?case by (simp add: Suc.IH)
qed

lemma floor_between_powers:
  fixes q :: rat
  assumes "2 ^ k \<le> q" and "q < 2 ^ m"
  shows "2 ^ k \<le> nat \<lfloor>q\<rfloor>" and "nat \<lfloor>q\<rfloor> < 2 ^ m"
proof -
  have "(0::rat) \<le> 2 ^ k" by simp
  from this assms(1) have "0 \<le> q" by (rule order_trans)
  then have nn: "0 \<le> \<lfloor>q\<rfloor>" by simp
  have "(2::rat) ^ k = of_int (2 ^ k)" by simp
  with assms(1) have "(2::int) ^ k \<le> \<lfloor>q\<rfloor>" by (simp only: le_floor_iff)
  with nn show "2 ^ k \<le> nat \<lfloor>q\<rfloor>" by (simp add: le_nat_iff)
  have "(2::rat) ^ m = of_int (2 ^ m)" by simp
  with assms(2) have "\<lfloor>q\<rfloor> < (2::int) ^ m" by (simp only: floor_less_iff)
  with nn show "nat \<lfloor>q\<rfloor> < 2 ^ m" by (simp add: nat_less_iff)
qed


text \<open>The exponent of a value between two neighbouring powers of two.\<close>

lemma binade_eq:
  assumes "pow2 e \<le> q" and "q < pow2 (e + 1)" and "- 1022 \<le> e"
  shows "binade q = e"
proof -
  define k where "k = nat (e + 1100)"
  from assms(3) have k: "int k = e + 1100" by (simp add: k_def)
  have "pow2 e * 2 ^ 1100 = pow2 (e + int 1100)" by (simp only: pow2_add_nat)
  also have "\<dots> = pow2 (int k)" by (simp add: k)
  finally have a: "pow2 e * 2 ^ 1100 = 2 ^ k" by (simp only: pow2_nat)
  have "pow2 (e + 1) * 2 ^ 1100 = pow2 ((e + 1) + int 1100)" by (simp only: pow2_add_nat)
  also have "\<dots> = pow2 (int (Suc k))" by (simp add: k)
  finally have b: "pow2 (e + 1) * 2 ^ 1100 = 2 ^ Suc k" by (simp only: pow2_nat)
  have p: "(0::rat) < 2 ^ 1100" by simp
  from assms(1) p have "pow2 e * 2 ^ 1100 \<le> q * 2 ^ 1100"
    by (simp only: mult_le_cancel_right_pos)
  then have lo: "2 ^ k \<le> q * 2 ^ 1100" by (simp only: a)
  from assms(2) p have "q * 2 ^ 1100 < pow2 (e + 1) * 2 ^ 1100"
    by (simp only: mult_less_cancel_right_pos)
  then have hi: "q * 2 ^ 1100 < 2 ^ Suc k" by (simp only: b)
  from bit_length_eq [OF floor_between_powers [OF lo hi]]
  have "int (bit_length (nat \<lfloor>q * 2 ^ 1100\<rfloor>)) = int (Suc k)" by (simp only:)
  also have "\<dots> = e + 1101" using k by simp
  finally have "int (bit_length (nat \<lfloor>q * 2 ^ 1100\<rfloor>)) - 1101 = e" by simp
  with assms(3) show ?thesis by (simp only: binade_def max_def) simp
qed





lemma round_half_even_int: "round_half_even (of_int n) = n"
  by (simp add: round_half_even_def)


lemma double_round_at:
  assumes "pow2 e \<le> q" and "q < pow2 (e + 1)" and "- 1022 \<le> e"
  shows "double_round q = of_int (round_half_even (q / pow2 (e - 52))) * pow2 (e - 52)"
  by (simp only: double_round_def Let_def binade_eq [OF assms])


lemma double_round_exact:
  assumes "q = of_int N * pow2 (e - 52)"
    and "pow2 e \<le> q" and "q < pow2 (e + 1)" and "- 1022 \<le> e"
  shows "double_round q = q"
proof -
  have "0 < pow2 (e - 52)" by (rule pow2_pos)
  then have "q / pow2 (e - 52) = of_int N" by (simp add: assms(1))
  then show ?thesis
    by (simp only: double_round_at [OF assms(2) assms(3) assms(4)] round_half_even_int
        assms(1) [symmetric])
qed

lemma double_half: "double_round (1 / 2 * 1000000000) = 500000000"
  using double_round_exact [of "1 / 2 * 1000000000" "500000000 * 2 ^ 24" 28]
  by (simp add: pow2_def)




lemma round_half: "Math_round (double_round (1 / 2 * 1000000000)) = 500000000"
  unfolding double_half Math_round_def by code_simp



lemma round_tie_exact: "Math_round (415830864394 / 2 ^ 53 * 1000000000) = 46166"
  unfolding Math_round_def by code_simp





subsection \<open>Decimal digits\<close>






subsection \<open>The extension\<close>









lemma number_1700000000000: "number_to_string 1700000000000 = ''1700000000000''"
  by (simp add: number_to_string_def digits_small digits_large)


lemma number_500000000: "number_to_string 500000000 = ''500000000''"
  by (simp add: number_to_string_def digits_small digits_large)


lemma extname_photo_png: "extname ''photo.png'' = ''.png''"
  by (simp add: extname_def last_segment_def)




subsection \<open>The upload route\<close>

lemma status_json_reply: "status (json_reply code members) = code"
  by (simp add: json_reply_def)

lemma payload_json_reply: "payload (json_reply code members) = JsonBody (JObj members)"
  by (simp add: json_reply_def)

lemma json_reply_eq_iff:
  "json_reply c m = json_reply c' m' \<longleftrightarrow> c = c' \<and> m = m'"
  by (simp add: json_reply_def)

lemma status_error_handler: "status (error_handler err) = 400 \<or> status (error_handler err) = 500"
  by (cases err) (simp_all add: error_handler_def status_json_reply)

lemma error_handler_size:
  "error_handler (MulterError ''LIMIT_FILE_SIZE'' message) =
     json_reply 400
       [(''success'', JBool False), (''error'', JStr ''File too large. Maximum size is 10MB.'')]"
  by (simp add: error_handler_def)

lemma error_handler_plain:
  "error_handler (Error message) =
     json_reply 500 [(''success'', JBool False), (''error'', JStr ''Internal server error'')]"
  by (simp add: error_handler_def)

lemma error_handler_system:
  "error_handler (SystemError code) =
     json_reply 500 [(''success'', JBool False), (''error'', JStr ''Internal server error'')]"
  by (simp add: error_handler_def)

text \<open>The multer stage, case by case.\<close>

lemma upload_single_none: "upload_single e s None = (Inr None, s)"
  by (simp add: upload_single_def)

lemma upload_single_rejected:
  assumes "originalname file \<noteq> []" and "fieldname file = ''file''"
    and "fileFilter file = Reject err"
  shows "upload_single e s (Some file) =
           (Inl err, s\<lparr>trace := trace s @ [FileFilter (originalname file)]\<rparr>)"
  using assms by (simp add: upload_single_def)

lemma upload_single_too_large:
  assumes "originalname file \<noteq> []" and "fieldname file = ''file''"
    and "fileFilter file = Accept" and "write_error e = None"
    and "fileSize < length (content file)"
  shows "upload_single e s (Some file) =
           (Inl (MulterError ''LIMIT_FILE_SIZE'' ''File too large''),
            s\<lparr>disk := AList.delete (storage_filename (now_filename e) (math_random e) file)
                        (AList.update (storage_filename (now_filename e) (math_random e) file)
                           (take fileSize (content file)) (disk s)),
              trace := trace s @
                [FileFilter (originalname file),
                 DiskWrite (storage_filename (now_filename e) (math_random e) file),
                 DiskUnlink (storage_filename (now_filename e) (math_random e) file)]\<rparr>)"
  using assms by (simp add: upload_single_def Let_def)

lemma upload_single_stored:
  assumes "originalname file \<noteq> []" and "fieldname file = ''file''"
    and "fileFilter file = Accept" and "write_error e = None"
    and "length (content file) \<le> fileSize"
  shows "upload_single e s (Some file) =
           (Inr (Some (stored_file e file)),
            s\<lparr>disk := AList.update (storage_filename (now_filename e) (math_random e) file)
                        (content file) (disk s),
              trace := trace s @
                [FileFilter (originalname file),
                 DiskWrite (storage_filename (now_filename e) (math_random e) file)]\<rparr>)"
  using assms by (simp add: upload_single_def Let_def)

text \<open>What the stage returned tells which case it was.\<close>

lemma upload_single_Some:
  assumes "upload_single e s p = (Inr (Some f), s1)"
  shows "\<exists>file. p = Some file \<and> originalname file \<noteq> [] \<and> fieldname file = ''file''
           \<and> fileFilter file = Accept \<and> write_error e = None
           \<and> length (content file) \<le> fileSize \<and> f = stored_file e file
           \<and> s1 = s\<lparr>disk := AList.update (storage_filename (now_filename e) (math_random e) file)
                               (content file) (disk s),
                     trace := trace s @
                       [FileFilter (originalname file),
                        DiskWrite (storage_filename (now_filename e) (math_random e) file)]\<rparr>"
  using assms
  by (auto simp: upload_single_def Let_def
      split: option.splits if_splits filter_verdict.splits)

lemma upload_single_no_file:
  assumes "upload_single e s p = (Inr None, s1)"
  shows "s1 = s"
  using assms
  by (auto simp: upload_single_def Let_def
      split: option.splits if_splits filter_verdict.splits)

lemma upload_single_sessions:
  "uploadSessions (snd (upload_single e s p)) = uploadSessions s"
  by (auto simp: upload_single_def Let_def
      split: option.splits if_splits filter_verdict.splits)

text \<open>The handler, case by case.\<close>

lemma upload_handler_conflict:
  assumes "uploadSessions s client \<noteq> None"
  shows "upload_handler e s client file =
           (Inr (json_reply 429
                  [(''success'', JBool False),
                   (''error'', JStr ''Upload already in progress. Please wait.'')]),
            s\<lparr>trace := trace s @ [SessionsHas client]\<rparr>)"
  using assms by (simp add: upload_handler_def)

lemma upload_handler_throws:
  assumes "uploadSessions s client = None" and "log_file_details e file = Some err"
  shows "upload_handler e s client file =
           (Inl err,
            s\<lparr>uploadSessions :=
                 (uploadSessions s)(client \<mapsto> client @ number_to_string (int (now_session e))),
              trace := trace s @ [SessionsHas client, SessionsSet client]\<rparr>)"
  using assms by (simp add: upload_handler_def Let_def)

lemma upload_handler_no_file:
  assumes "uploadSessions s client = None"
  shows "upload_handler e s client None =
           (Inr (json_reply 400
                  [(''success'', JBool False),
                   (''error'', JStr ''No file uploaded or invalid file type'')]),
            s\<lparr>uploadSessions := (uploadSessions s)(client := None),
              trace := trace s @ [SessionsHas client, SessionsSet client, SessionsDelete client]\<rparr>)"
  using assms by (simp add: upload_handler_def Let_def log_file_details_def)

lemma upload_handler_success:
  assumes "uploadSessions s client = None" and "log_file_details e (Some f) = None"
  shows "upload_handler e s client (Some f) =
           (Inr (json_reply 200 (upload_result e f)),
            s\<lparr>uploadSessions := (uploadSessions s)(client := None),
              trace := trace s @ [SessionsHas client, SessionsSet client, SessionsDelete client]\<rparr>)"
  using assms by (simp add: upload_handler_def Let_def)

lemma upload_handler_200:
  assumes "upload_handler e s client file = (Inr res, s')" and "status res = 200"
  shows "\<exists>f. file = Some f \<and> res = json_reply 200 (upload_result e f)"
  using assms
  by (auto simp: upload_handler_def Let_def status_json_reply
      split: if_splits option.splits)

lemma upload_result_stored:
  "upload_result e (stored_file e file) =
     [(''success'', JBool True),
      (''filename'', JStr (storage_filename (now_filename e) (math_random e) file)),
      (''originalName'', JStr (originalname file)),
      (''size'', JNum (int (length (content file)))),
      (''mimetype'', JStr (mimetype file)),
      (''url'', JStr (''/uploads/'' @ storage_filename (now_filename e) (math_random e) file)),
      (''uploadedAt'', JStr (now_iso e)),
      (''uploadTime'', JStr (number_to_string (int (now_end e) - int (now_start e)) @ ''ms''))]"
  by (simp add: upload_result_def stored_file_def Let_def)

lemma upload_request_200:
  assumes "upload_request e s req = (res, s')" and "status res = 200"
  shows "\<exists>file s1. part req = Some file
           \<and> upload_single e s (part req) = (Inr (Some (stored_file e file)), s1)
           \<and> res = json_reply 200 (upload_result e (stored_file e file))"
proof (cases "upload_single e s (part req)")
  case (Pair r s1)
  show ?thesis
  proof (cases r)
    case (Inl err)
    with Pair assms(1) have "res = error_handler err"
      by (simp add: upload_request_def post_upload_def)
    with assms(2) status_error_handler [of err] show ?thesis by simp
  next
    case (Inr fo)
    show ?thesis
    proof (cases "upload_handler e s1 (ip req) fo")
      case (Pair h s2)
      show ?thesis
      proof (cases h)
        case (Inl err)
        with Pair \<open>r = Inr fo\<close> \<open>upload_single e s (part req) = (r, s1)\<close> assms(1)
        have "res = error_handler err"
          by (simp add: upload_request_def post_upload_def)
        with assms(2) status_error_handler [of err] show ?thesis by simp
      next
        case (Inr res')
        with Pair \<open>r = Inr fo\<close> \<open>upload_single e s (part req) = (r, s1)\<close> assms(1)
        have "res' = res"
          by (simp add: upload_request_def post_upload_def)
        with Pair Inr have h: "upload_handler e s1 (ip req) fo = (Inr res, s2)" by simp
        from upload_handler_200 [OF h assms(2)] obtain f
          where fo: "fo = Some f" and res: "res = json_reply 200 (upload_result e f)"
          by blast
        from \<open>upload_single e s (part req) = (r, s1)\<close> \<open>r = Inr fo\<close> fo
        have u: "upload_single e s (part req) = (Inr (Some f), s1)" by simp
        from upload_single_Some [OF u] obtain fp
          where "part req = Some fp" and "f = stored_file e fp" by blast
        with u res show ?thesis by blast
      qed
    qed
  qed
qed

text \<open>The whole route, case by case.\<close>

lemma upload_request_stored:
  assumes "part req = Some file" and "originalname file \<noteq> []" and "fieldname file = ''file''"
    and "fileFilter file = Accept" and "write_error e = None"
    and "length (content file) \<le> fileSize"
    and "uploadSessions s (ip req) = None"
    and "log_file_details e (Some (stored_file e file)) = None"
  shows "upload_request e s req =
           (json_reply 200 (upload_result e (stored_file e file)),
            s\<lparr>disk := AList.update (storage_filename (now_filename e) (math_random e) file)
                        (content file) (disk s),
              trace := trace s @
                [FileFilter (originalname file),
                 DiskWrite (storage_filename (now_filename e) (math_random e) file),
                 SessionsHas (ip req), SessionsSet (ip req), SessionsDelete (ip req)]\<rparr>)"
proof -
  let ?s1 = "s\<lparr>disk := AList.update (storage_filename (now_filename e) (math_random e) file)
                        (content file) (disk s),
              trace := trace s @
                [FileFilter (originalname file),
                 DiskWrite (storage_filename (now_filename e) (math_random e) file)]\<rparr>"
  have g: "uploadSessions ?s1 (ip req) = None" using assms(7) by simp
  have idem: "(uploadSessions s)(ip req := None) = uploadSessions s"
    using assms(7) by (simp add: fun_upd_idem)
  show ?thesis
    unfolding upload_request_def post_upload_def assms(1)
      upload_single_stored [OF assms(2-6)] prod.case sum.case
      upload_handler_success [OF g assms(8)]
    by (simp add: idem)
qed

lemma upload_request_conflict:
  assumes "upload_single e s (part req) = (Inr file, s1)"
    and "uploadSessions s (ip req) \<noteq> None"
  shows "upload_request e s req =
           (json_reply 429
              [(''success'', JBool False),
               (''error'', JStr ''Upload already in progress. Please wait.'')],
            s1\<lparr>trace := trace s1 @ [SessionsHas (ip req)]\<rparr>)"
proof -
  have "uploadSessions s1 = uploadSessions s"
    using upload_single_sessions [of e s "part req"] assms(1) by simp
  with assms(2) have g: "uploadSessions s1 (ip req) \<noteq> None" by simp
  show ?thesis
    unfolding upload_request_def post_upload_def assms(1) prod.case sum.case
      upload_handler_conflict [OF g] ..
qed

lemma upload_request_aborted:
  assumes "upload_single e s (part req) = (Inl err, s1)"
  shows "upload_request e s req = (error_handler err, s1)"
  unfolding upload_request_def post_upload_def assms prod.case sum.case ..

lemma upload_request_throws:
  assumes "upload_single e s (part req) = (Inr file, s1)"
    and "uploadSessions s (ip req) = None"
    and "log_file_details e file = Some err"
  shows "upload_request e s req =
           (error_handler err,
            s1\<lparr>uploadSessions :=
                  (uploadSessions s1)(ip req \<mapsto> ip req @ number_to_string (int (now_session e))),
               trace := trace s1 @ [SessionsHas (ip req), SessionsSet (ip req)]\<rparr>)"
proof -
  have "uploadSessions s1 = uploadSessions s"
    using upload_single_sessions [of e s "part req"] assms(1) by simp
  with assms(2) have g: "uploadSessions s1 (ip req) = None" by simp
  show ?thesis
    unfolding upload_request_def post_upload_def assms(1) prod.case sum.case
      upload_handler_throws [OF g assms(3)] ..
qed

text \<open>
  C7. An upload succeeds when the request carries, in the field \<open>file\<close>, a file that the
  type filter accepts and that is smaller than the limit, the disk write does not fail,
  the map holds no entry for the client, and \<open>fs.statSync\<close> does not throw while the
  handler logs the file. \<open>POST /upload\<close> then responds 200 with a JSON object of exactly
  the eight members \<open>success\<close> (true), \<open>filename\<close> (the generated name), \<open>originalName\<close>
  (the name the client declared), \<open>size\<close> (the number of bytes), \<open>mimetype\<close> (the declared
  type), \<open>url\<close> (\<open>/uploads/\<close> and the generated name), \<open>uploadedAt\<close> (the ISO string of the
  clock) and \<open>uploadTime\<close> (the milliseconds since the handler started). No other response
  of the route has status 200: whenever it answers 200, the body is this object.
\<close>

theorem upload_success_response:
  assumes "part req = Some file" and "originalname file \<noteq> []" and "fieldname file = ''file''"
    and "fileFilter file = Accept" and "write_error e = None"
    and "length (content file) < fileSize"
    and "uploadSessions s (ip req) = None"
    and "\<not> (existsSync e
              (path_join [uploadDir e, storage_filename (now_filename e) (math_random e) file])
            \<and> isl (statSync e
              (path_join [uploadDir e, storage_filename (now_filename e) (math_random e) file])))"
  shows "fst (upload_request e s req) =
           \<lparr>status = 200,
            payload = JsonBody (JObj
              [(''success'', JBool True),
               (''filename'', JStr (storage_filename (now_filename e) (math_random e) file)),
               (''originalName'', JStr (originalname file)),
               (''size'', JNum (int (length (content file)))),
               (''mimetype'', JStr (mimetype file)),
               (''url'',
                JStr (''/uploads/'' @ storage_filename (now_filename e) (math_random e) file)),
               (''uploadedAt'', JStr (now_iso e)),
               (''uploadTime'',
                JStr (number_to_string (int (now_end e) - int (now_start e)) @ ''ms''))])\<rparr>
       \<and> (\<forall>e' s' (req' :: request).
             status (fst (upload_request e' s' req')) = 200 \<longrightarrow>
             (\<exists>file'. part req' = Some file'
                \<and> fst (upload_request e' s' req') =
                    \<lparr>status = 200,
                     payload = JsonBody (JObj
                       [(''success'', JBool True),
                        (''filename'',
                         JStr (storage_filename (now_filename e') (math_random e') file')),
                        (''originalName'', JStr (originalname file')),
                        (''size'', JNum (int (length (content file')))),
                        (''mimetype'', JStr (mimetype file')),
                        (''url'',
                         JStr (''/uploads/''
                               @ storage_filename (now_filename e') (math_random e') file')),
                        (''uploadedAt'', JStr (now_iso e')),
                        (''uploadTime'',
                         JStr (number_to_string (int (now_end e') - int (now_start e'))
                               @ ''ms''))])\<rparr>))"
proof (intro conjI allI impI)
  have le: "length (content file) \<le> fileSize" using assms(6) by simp
  have lg: "log_file_details e (Some (stored_file e file)) = None"
    using assms(8)
    by (auto simp: log_file_details_def stored_file_def Let_def split: sum.splits)
  show "fst (upload_request e s req) =
           \<lparr>status = 200,
            payload = JsonBody (JObj
              [(''success'', JBool True),
               (''filename'', JStr (storage_filename (now_filename e) (math_random e) file)),
               (''originalName'', JStr (originalname file)),
               (''size'', JNum (int (length (content file)))),
               (''mimetype'', JStr (mimetype file)),
               (''url'',
                JStr (''/uploads/'' @ storage_filename (now_filename e) (math_random e) file)),
               (''uploadedAt'', JStr (now_iso e)),
               (''uploadTime'',
                JStr (number_to_string (int (now_end e) - int (now_start e)) @ ''ms''))])\<rparr>"
    unfolding upload_request_stored [OF assms(1-5) le assms(7) lg] fst_conv
      upload_result_stored json_reply_def ..
next
  fix e' s' and req' :: request
  assume st: "status (fst (upload_request e' s' req')) = 200"
  obtain res s1 where ev: "upload_request e' s' req' = (res, s1)"
    by (cases "upload_request e' s' req'")
  with st have "status res = 200" by simp
  from upload_request_200 [OF ev this] obtain fp
    where "part req' = Some fp"
      and "res = json_reply 200 (upload_result e' (stored_file e' fp))"
    by blast
  then show "\<exists>file'. part req' = Some file'
                \<and> fst (upload_request e' s' req') =
                    \<lparr>status = 200,
                     payload = JsonBody (JObj
                       [(''success'', JBool True),
                        (''filename'',
                         JStr (storage_filename (now_filename e') (math_random e') file')),
                        (''originalName'', JStr (originalname file')),
                        (''size'', JNum (int (length (content file')))),
                        (''mimetype'', JStr (mimetype file')),
                        (''url'',
                         JStr (''/uploads/''
                               @ storage_filename (now_filename e') (math_random e') file')),
                        (''uploadedAt'', JStr (now_iso e')),
                        (''uploadTime'',
                         JStr (number_to_string (int (now_end e') - int (now_start e'))
                               @ ''ms''))])\<rparr>"
    unfolding ev fst_conv by (simp add: upload_result_stored json_reply_def)
qed

lemma fileFilter_photo_png: "fileFilter photo_png = Accept"
  by (simp add: fileFilter_def photo_png_def allowedTypes_def del: regex_match.simps)

lemma name_photo_png:
  "storage_filename (now_filename env0) (math_random env0) photo_png
     = ''1700000000000-500000000.png''"
  unfolding storage_filename_def Let_def env0_def env.simps round_half
  by (simp add: photo_png_def number_1700000000000 number_500000000 extname_photo_png)

lemma number_1700000000001: "number_to_string 1700000000001 = ''1700000000001''"
  by (simp add: number_to_string_def digits_small digits_large)

lemma name_photo_png_env1:
  "storage_filename (now_filename env1) (math_random env1) photo_png
     = ''1700000000001-500000000.png''"
  unfolding storage_filename_def Let_def env1_def env0_def env.simps round_half
  by (simp add: photo_png_def number_1700000000001 number_500000000 extname_photo_png)

lemma upload_single_photo_png:
  "upload_single env0 s (Some photo_png) =
     (Inr (Some (stored_file env0 photo_png)),
      s\<lparr>disk := AList.update ''1700000000000-500000000.png'' (content photo_png) (disk s),
        trace := trace s @
          [FileFilter ''photo.png'', DiskWrite ''1700000000000-500000000.png'']\<rparr>)"
proof -
  have a: "originalname photo_png \<noteq> []" and b: "fieldname photo_png = ''file''"
    and c: "length (content photo_png) \<le> fileSize" and d: "write_error env0 = None"
    and o: "originalname photo_png = ''photo.png''"
    by (simp_all add: photo_png_def fileSize_def env0_def)
  show ?thesis
    unfolding upload_single_stored [OF a b fileFilter_photo_png d c] name_photo_png o ..
qed

lemma log_file_details_env0: "log_file_details env0 file = None"
  by (simp add: log_file_details_def env0_def Let_def split: option.splits)

lemma time_3ms: "number_to_string (int (now_end env0) - int (now_start env0)) = ''3''"
  by (simp add: env0_def number_to_string_def digits_small)

lemma upload_request_photo_png:
  "upload_request env0 s0 (upload_of photo_png) =
     (json_reply 200 (upload_result env0 (stored_file env0 photo_png)),
      \<lparr>uploadSessions = Map.empty,
       disk = [(''1700000000000-500000000.png'', content photo_png)],
       trace = [FileFilter ''photo.png'', DiskWrite ''1700000000000-500000000.png'',
                SessionsHas ''203.0.113.7'', SessionsSet ''203.0.113.7'',
                SessionsDelete ''203.0.113.7'']\<rparr>)"
proof -
  have p: "part (upload_of photo_png) = Some photo_png"
    and a: "originalname photo_png \<noteq> []" and b: "fieldname photo_png = ''file''"
    and c: "length (content photo_png) \<le> fileSize" and d: "write_error env0 = None"
    and g: "uploadSessions s0 (ip (upload_of photo_png)) = None"
    by (simp_all add: photo_png_def fileSize_def env0_def upload_of_def s0_def)
  show ?thesis
    unfolding upload_request_stored [OF p a b fileFilter_photo_png d c g log_file_details_env0]
      name_photo_png
    by (simp add: s0_def upload_of_def photo_png_def)
qed

theorem upload_success_response_witness:
  "part (upload_of photo_png) = Some photo_png \<and> originalname photo_png \<noteq> []
   \<and> fieldname photo_png = ''file'' \<and> fileFilter photo_png = Accept
   \<and> write_error env0 = None \<and> length (content photo_png) < fileSize
   \<and> uploadSessions s0 (ip (upload_of photo_png)) = None
   \<and> \<not> isl (statSync env0
          (path_join [uploadDir env0,
             storage_filename (now_filename env0) (math_random env0) photo_png]))
   \<and> fst (upload_request env0 s0 (upload_of photo_png)) =
       \<lparr>status = 200,
        payload = JsonBody (JObj
          [(''success'', JBool True),
           (''filename'', JStr ''1700000000000-500000000.png''),
           (''originalName'', JStr ''photo.png''),
           (''size'', JNum 2097152),
           (''mimetype'', JStr ''image/png''),
           (''url'', JStr ''/uploads/1700000000000-500000000.png''),
           (''uploadedAt'', JStr ''2023-11-14T22:13:20.006Z''),
           (''uploadTime'', JStr ''3ms'')])\<rparr>"
proof -
  have p: "part (upload_of photo_png) = Some photo_png"
    and a: "originalname photo_png \<noteq> []" and b: "fieldname photo_png = ''file''"
    and c: "length (content photo_png) < fileSize" and d: "write_error env0 = None"
    and g: "uploadSessions s0 (ip (upload_of photo_png)) = None"
    by (simp_all add: photo_png_def fileSize_def env0_def upload_of_def s0_def)
  have st: "statSync env0 = (\<lambda>p. Inr 2097152)" by (simp add: env0_def)
  have t: "\<not> isl (statSync env0
          (path_join [uploadDir env0,
             storage_filename (now_filename env0) (math_random env0) photo_png]))"
    unfolding st by simp
  then have t': "\<not> (existsSync env0
          (path_join [uploadDir env0,
             storage_filename (now_filename env0) (math_random env0) photo_png])
        \<and> isl (statSync env0
          (path_join [uploadDir env0,
             storage_filename (now_filename env0) (math_random env0) photo_png])))"
    by simp
  note r = upload_success_response [OF p a b fileFilter_photo_png d c g t', THEN conjunct1]
  have v: "fst (upload_request env0 s0 (upload_of photo_png)) =
       \<lparr>status = 200,
        payload = JsonBody (JObj
          [(''success'', JBool True),
           (''filename'', JStr ''1700000000000-500000000.png''),
           (''originalName'', JStr ''photo.png''),
           (''size'', JNum 2097152),
           (''mimetype'', JStr ''image/png''),
           (''url'', JStr ''/uploads/1700000000000-500000000.png''),
           (''uploadedAt'', JStr ''2023-11-14T22:13:20.006Z''),
           (''uploadTime'', JStr ''3ms'')])\<rparr>"
    unfolding r name_photo_png time_3ms by (simp add: photo_png_def env0_def)
  from p a b fileFilter_photo_png d c g t v show ?thesis by (intro conjI)
qed

subsection \<open>The size limit\<close>

lemma fileFilter_Reject:
  "fileFilter file = Reject err \<Longrightarrow> err = Error ''Only image files and 3D models are allowed!''"
  by (simp add: fileFilter_def split: if_splits)

lemma upload_request_rejected:
  assumes "part req = Some file" and "originalname file \<noteq> []" and "fieldname file = ''file''"
    and "fileFilter file = Reject err"
  shows "fst (upload_request e s req) =
           json_reply 500 [(''success'', JBool False), (''error'', JStr ''Internal server error'')]"
proof -
  have u: "upload_single e s (part req) =
             (Inl err, s\<lparr>trace := trace s @ [FileFilter (originalname file)]\<rparr>)"
    unfolding assms(1) by (rule upload_single_rejected [OF assms(2-4)])
  show ?thesis
    unfolding upload_request_aborted [OF u] fileFilter_Reject [OF assms(4)]
    by (simp add: error_handler_plain)
qed

lemma upload_request_too_large:
  assumes "part req = Some file" and "originalname file \<noteq> []" and "fieldname file = ''file''"
    and "fileFilter file = Accept" and "write_error e = None"
    and "fileSize < length (content file)"
  shows "fst (upload_request e s req) =
           json_reply 400
             [(''success'', JBool False),
              (''error'', JStr ''File too large. Maximum size is 10MB.'')]"
proof -
  note u = upload_single_too_large [OF assms(2-6), of s, folded assms(1)]
  show ?thesis
    unfolding upload_request_aborted [OF u] by (simp add: error_handler_size)
qed

text \<open>
  C5, as amended. A file in the field \<open>file\<close> that passes the type filter and holds more
  than \<open>10 * 1024 * 1024\<close> bytes fails the request with status 400 and the message
  \<open>File too large. Maximum size is 10MB.\<close>, whenever the disk write itself does not fail;
  a request whose file the type filter rejects never gets this response.
\<close>

theorem oversize_accepted_file:
  assumes "part req = Some file" and "originalname file \<noteq> []" and "fieldname file = ''file''"
    and "fileFilter file = Accept" and "write_error e = None"
    and "fileSize < length (content file)"
  shows "fileSize = 10 * 1024 * 1024
       \<and> fst (upload_request e s req) =
           json_reply 400
             [(''success'', JBool False),
              (''error'', JStr ''File too large. Maximum size is 10MB.'')]
       \<and> (\<forall>e' s' (req' :: request) (file' :: file_part) err.
             part req' = Some file' \<and> originalname file' \<noteq> [] \<and> fieldname file' = ''file''
               \<and> fileFilter file' = Reject err
             \<longrightarrow> fst (upload_request e' s' req') \<noteq> fst (upload_request e s req))"
proof (intro conjI allI impI)
  show "fileSize = 10 * 1024 * 1024" by (simp add: fileSize_def)
  show large: "fst (upload_request e s req) =
           json_reply 400
             [(''success'', JBool False),
              (''error'', JStr ''File too large. Maximum size is 10MB.'')]"
    by (rule upload_request_too_large [OF assms])
  fix e' s' and req' :: request and file' :: file_part and err
  assume "part req' = Some file' \<and> originalname file' \<noteq> [] \<and> fieldname file' = ''file''
               \<and> fileFilter file' = Reject err"
  then have "fst (upload_request e' s' req') =
           json_reply 500 [(''success'', JBool False), (''error'', JStr ''Internal server error'')]"
    using upload_request_rejected by blast
  with large show "fst (upload_request e' s' req') \<noteq> fst (upload_request e s req)"
    by (simp add: json_reply_eq_iff)
qed

lemma fileFilter_big_png: "fileFilter big_png = Accept"
  by (simp add: fileFilter_def big_png_def allowedTypes_def del: regex_match.simps)

lemma fileFilter_big_exe:
  "fileFilter big_exe = Reject (Error ''Only image files and 3D models are allowed!'')"
  by (simp add: fileFilter_def big_exe_def regex_match_exe allowedTypes_def
      del: regex_match.simps)

theorem oversize_accepted_file_witness:
  "part (upload_of big_png) = Some big_png \<and> originalname big_png \<noteq> []
   \<and> fieldname big_png = ''file'' \<and> fileFilter big_png = Accept \<and> write_error env0 = None
   \<and> fileSize < length (content big_png)
   \<and> fst (upload_request env0 s0 (upload_of big_png)) =
       json_reply 400
         [(''success'', JBool False),
          (''error'', JStr ''File too large. Maximum size is 10MB.'')]
   \<and> fst (upload_request env0 s0 (upload_of big_exe))
       \<noteq> fst (upload_request env0 s0 (upload_of big_png))"
proof -
  have p: "part (upload_of big_png) = Some big_png" by (simp add: upload_of_def)
  have a: "originalname big_png \<noteq> []" and b: "fieldname big_png = ''file''"
    and c: "fileSize < length (content big_png)"
    by (simp_all add: big_png_def fileSize_def)
  have d: "write_error env0 = None" by (simp add: env0_def)
  have x: "part (upload_of big_exe) = Some big_exe \<and> originalname big_exe \<noteq> []
      \<and> fieldname big_exe = ''file''
      \<and> fileFilter big_exe = Reject (Error ''Only image files and 3D models are allowed!'')"
    by (simp add: upload_of_def big_exe_def fileFilter_big_exe [unfolded big_exe_def])
  note t = oversize_accepted_file [OF p a b fileFilter_big_png d c, of s0]
  from t have r: "fst (upload_request env0 s0 (upload_of big_png)) =
       json_reply 400
         [(''success'', JBool False),
          (''error'', JStr ''File too large. Maximum size is 10MB.'')]"
    by blast
  from t x have n: "fst (upload_request env0 s0 (upload_of big_exe))
       \<noteq> fst (upload_request env0 s0 (upload_of big_png))"
    by blast
  from p a b fileFilter_big_png d c r n show ?thesis by (intro conjI)
qed

text \<open>
  The claim as written fails: a file of more than 10 MiB whose type and extension are
  not listed is stopped by the type filter, which runs before any byte is counted, and the
  request ends with status 500 and the message \<open>Internal server error\<close>.
\<close>

theorem oversize_rejected_type:
  "fileSize < length (content big_exe)
   \<and> fst (upload_request env0 s0 (upload_of big_exe)) =
       json_reply 500 [(''success'', JBool False), (''error'', JStr ''Internal server error'')]
   \<and> fst (upload_request env0 s0 (upload_of big_exe)) \<noteq>
       json_reply 400
         [(''success'', JBool False),
          (''error'', JStr ''File too large. Maximum size is 10MB.'')]"
proof -
  have c: "fileSize < length (content big_exe)"
    by (simp add: big_exe_def fileSize_def)
  have p: "part (upload_of big_exe) = Some big_exe" by (simp add: upload_of_def)
  have a: "originalname big_exe \<noteq> []" and b: "fieldname big_exe = ''file''"
    by (simp_all add: big_exe_def)
  note r = upload_request_rejected [OF p a b fileFilter_big_exe, of env0 s0]
  from r have n: "fst (upload_request env0 s0 (upload_of big_exe)) \<noteq>
       json_reply 400
         [(''success'', JBool False),
          (''error'', JStr ''File too large. Maximum size is 10MB.'')]"
    by (simp add: json_reply_eq_iff)
  from c r n show ?thesis by (intro conjI)
qed

subsection \<open>The entry of the map after an exception\<close>

lemma log_file_details_env_race:
  "log_file_details env_race (Some f) = Some (SystemError ''ENOENT'')"
  by (simp add: log_file_details_def env_race_def env0_def Let_def)

lemma number_1700000000005: "number_to_string 1700000000005 = ''1700000000005''"
  by (simp add: number_to_string_def digits_small digits_large)

lemma upload_single_env_race:
  "upload_single env_race s p = upload_single env0 s p"
  by (auto simp: upload_single_def env_race_def stored_file_def uploadDir_def Let_def
      split: option.splits filter_verdict.splits)

text \<open>
  C2 fails on the path of an exception. The handler removes the entry on its two return
  paths only; when \<open>fs.statSync\<close> throws after the entry was set, the request ends in the
  error handler with status 500, the entry stays in the map, and the next request of the
  same client is answered 429.
\<close>

theorem entry_survives_exception:
  "uploadSessions s0 (ip (upload_of photo_png)) = None
   \<and> fst (upload_request env_race s0 (upload_of photo_png)) =
       json_reply 500 [(''success'', JBool False), (''error'', JStr ''Internal server error'')]
   \<and> uploadSessions (snd (upload_request env_race s0 (upload_of photo_png)))
         (ip (upload_of photo_png)) = Some ''203.0.113.71700000000005''
   \<and> fst (upload_request env0 (snd (upload_request env_race s0 (upload_of photo_png)))
            (upload_of photo_png)) =
       json_reply 429
         [(''success'', JBool False),
          (''error'', JStr ''Upload already in progress. Please wait.'')]"
proof -
  let ?req = "upload_of photo_png"
  have g: "uploadSessions s0 (ip ?req) = None" by (simp add: s0_def)
  have p: "part ?req = Some photo_png" by (simp add: upload_of_def)
  have u: "upload_single env_race s0 (part ?req) =
     (Inr (Some (stored_file env0 photo_png)),
      s0\<lparr>disk := AList.update ''1700000000000-500000000.png'' (content photo_png) (disk s0),
        trace := trace s0 @
          [FileFilter ''photo.png'', DiskWrite ''1700000000000-500000000.png'']\<rparr>)"
    unfolding p upload_single_env_race by (rule upload_single_photo_png)
  note r = upload_request_throws [OF u g log_file_details_env_race]
  have a: "fst (upload_request env_race s0 ?req) =
       json_reply 500 [(''success'', JBool False), (''error'', JStr ''Internal server error'')]"
    unfolding r by (simp add: error_handler_system)
  have b: "uploadSessions (snd (upload_request env_race s0 ?req)) (ip ?req)
       = Some ''203.0.113.71700000000005''"
    unfolding r
    by (simp add: upload_of_def env_race_def env0_def number_1700000000005)
  then have b': "uploadSessions (snd (upload_request env_race s0 ?req)) (ip ?req) \<noteq> None"
    by simp
  obtain fo s1 where
    v: "upload_single env0 (snd (upload_request env_race s0 ?req)) (part ?req) = (Inr fo, s1)"
    unfolding p upload_single_photo_png by blast
  have c: "fst (upload_request env0 (snd (upload_request env_race s0 ?req)) ?req) =
       json_reply 429
         [(''success'', JBool False),
          (''error'', JStr ''Upload already in progress. Please wait.'')]"
    unfolding upload_request_conflict [OF v b'] by simp
  from g a b c show ?thesis by (intro conjI)
qed

subsection \<open>The order of the multer stage and the admission check\<close>

lemma upload_single_trace:
  "\<exists>evs. trace (snd (upload_single e s p)) = trace s @ evs \<and> list_all is_file_event evs"
  by (auto simp: upload_single_def Let_def
      split: option.splits if_splits filter_verdict.splits)

lemma upload_handler_trace:
  "\<exists>evs. trace (snd (upload_handler e s client file)) = trace s @ evs
         \<and> list_all is_gate_event evs"
  by (auto simp: upload_handler_def Let_def split: option.splits if_splits)

lemma upload_request_snd:
  "snd (upload_request e s req) = snd (post_upload e s req)"
  by (simp add: upload_request_def split: prod.splits sum.splits)

lemma post_upload_snd:
  "snd (post_upload e s req) =
     (case fst (upload_single e s (part req)) of
        Inl err \<Rightarrow> snd (upload_single e s (part req))
      | Inr file \<Rightarrow>
          snd (upload_handler e (snd (upload_single e s (part req))) (ip req) file))"
  by (simp add: post_upload_def split: prod.splits sum.splits)

lemma upload_request_trace:
  "\<exists>evs1 evs2. trace (snd (upload_request e s req)) = trace s @ evs1 @ evs2
      \<and> list_all is_file_event evs1 \<and> list_all is_gate_event evs2"
proof -
  obtain evs1 where e1: "trace (snd (upload_single e s (part req))) = trace s @ evs1"
    and f1: "list_all is_file_event evs1"
    using upload_single_trace by blast
  show ?thesis
  proof (cases "fst (upload_single e s (part req))")
    case (Inl err)
    then have "trace (snd (upload_request e s req)) = trace s @ evs1 @ []"
      by (simp add: upload_request_snd post_upload_snd e1)
    moreover have "list_all is_gate_event []" by simp
    ultimately show ?thesis using f1 by blast
  next
    case (Inr fo)
    obtain evs2 where e2:
        "trace (snd (upload_handler e (snd (upload_single e s (part req))) (ip req) fo))
           = trace (snd (upload_single e s (part req))) @ evs2"
      and f2: "list_all is_gate_event evs2"
      using upload_handler_trace by blast
    from Inr have "trace (snd (upload_request e s req)) = trace s @ evs1 @ evs2"
      by (simp add: upload_request_snd post_upload_snd e1 e2)
    with f1 f2 show ?thesis by blast
  qed
qed

lemma upload_single_photo_png_env1:
  "upload_single env1 s (Some photo_png) =
     (Inr (Some (stored_file env1 photo_png)),
      s\<lparr>disk := AList.update ''1700000000001-500000000.png'' (content photo_png) (disk s),
        trace := trace s @
          [FileFilter ''photo.png'', DiskWrite ''1700000000001-500000000.png'']\<rparr>)"
proof -
  have a: "originalname photo_png \<noteq> []" and b: "fieldname photo_png = ''file''"
    and c: "length (content photo_png) \<le> fileSize" and d: "write_error env1 = None"
    and o: "originalname photo_png = ''photo.png''"
    by (simp_all add: photo_png_def fileSize_def env1_def env0_def)
  show ?thesis
    unfolding upload_single_stored [OF a b fileFilter_photo_png d c] name_photo_png_env1 o ..
qed

text \<open>
  C1 fails. The route is \<open>app.post('/upload', upload.single('file'), handler)\<close>: the multer
  stage filters and stores the file before the handler reads the map (line 81, under the
  comment \<open>Check for duplicate uploads\<close>). In an ordinary upload the file is filtered and
  written before the map is read and the entry inserted. A request that finds an entry of
  its client in the map is answered 429 with its file already written to the storage
  directory, where it stays: so for the map \<open>s_busy\<close>, and so for the second of two
  uploads of a client whose first upload ended with the exception of \<open>fs.statSync\<close>.
\<close>

theorem file_written_before_admission_check:
  "upload_request env0 s0 (upload_of photo_png) =
     (json_reply 200 (upload_result env0 (stored_file env0 photo_png)),
      \<lparr>uploadSessions = Map.empty,
       disk = [(''1700000000000-500000000.png'', content photo_png)],
       trace = [FileFilter ''photo.png'', DiskWrite ''1700000000000-500000000.png'',
                SessionsHas ''203.0.113.7'', SessionsSet ''203.0.113.7'',
                SessionsDelete ''203.0.113.7'']\<rparr>)
   \<and> uploadSessions s_busy (ip (upload_of photo_png)) \<noteq> None
   \<and> disk s_busy = []
   \<and> upload_request env0 s_busy (upload_of photo_png) =
       (json_reply 429
          [(''success'', JBool False),
           (''error'', JStr ''Upload already in progress. Please wait.'')],
        \<lparr>uploadSessions = uploadSessions s_busy,
         disk = [(''1700000000000-500000000.png'', content photo_png)],
         trace = [FileFilter ''photo.png'', DiskWrite ''1700000000000-500000000.png'',
                  SessionsHas ''203.0.113.7'']\<rparr>)
   \<and> uploadSessions (snd (upload_request env_race s0 (upload_of photo_png)))
         (ip (upload_of photo_png)) \<noteq> None
   \<and> map_of (disk (snd (upload_request env_race s0 (upload_of photo_png))))
         ''1700000000001-500000000.png'' = None
   \<and> fst (upload_request env1 (snd (upload_request env_race s0 (upload_of photo_png)))
            (upload_of photo_png)) =
       json_reply 429
         [(''success'', JBool False),
          (''error'', JStr ''Upload already in progress. Please wait.'')]
   \<and> map_of (disk (snd (upload_request env1
                           (snd (upload_request env_race s0 (upload_of photo_png)))
                           (upload_of photo_png))))
         ''1700000000001-500000000.png'' = Some (content photo_png)"
proof -
  let ?req = "upload_of photo_png"
  have g: "uploadSessions s_busy (ip ?req) \<noteq> None"
    by (simp add: s_busy_def upload_of_def)
  have d: "disk s_busy = []" by (simp add: s_busy_def)
  have p: "part ?req = Some photo_png" by (simp add: upload_of_def)
  have u: "upload_single env0 s_busy (part ?req) =
     (Inr (Some (stored_file env0 photo_png)),
      s_busy\<lparr>disk := AList.update ''1700000000000-500000000.png'' (content photo_png)
                       (disk s_busy),
        trace := trace s_busy @
          [FileFilter ''photo.png'', DiskWrite ''1700000000000-500000000.png'']\<rparr>)"
    unfolding p by (rule upload_single_photo_png)
  have r: "upload_request env0 s_busy ?req =
       (json_reply 429
          [(''success'', JBool False),
           (''error'', JStr ''Upload already in progress. Please wait.'')],
        \<lparr>uploadSessions = uploadSessions s_busy,
         disk = [(''1700000000000-500000000.png'', content photo_png)],
         trace = [FileFilter ''photo.png'', DiskWrite ''1700000000000-500000000.png'',
                  SessionsHas ''203.0.113.7'']\<rparr>)"
    unfolding upload_request_conflict [OF u g]
    by (simp add: s_busy_def upload_of_def)
  have g0: "uploadSessions s0 (ip ?req) = None" by (simp add: s0_def)
  have u0: "upload_single env_race s0 (part ?req) =
     (Inr (Some (stored_file env0 photo_png)),
      s0\<lparr>disk := AList.update ''1700000000000-500000000.png'' (content photo_png) (disk s0),
        trace := trace s0 @
          [FileFilter ''photo.png'', DiskWrite ''1700000000000-500000000.png'']\<rparr>)"
    unfolding p upload_single_env_race by (rule upload_single_photo_png)
  note t = upload_request_throws [OF u0 g0 log_file_details_env_race]
  have e1: "uploadSessions (snd (upload_request env_race s0 ?req)) (ip ?req) \<noteq> None"
    unfolding t by simp
  have e2: "map_of (disk (snd (upload_request env_race s0 ?req)))
         ''1700000000001-500000000.png'' = None"
    unfolding t by (simp add: s0_def)
  have u1: "upload_single env1 (snd (upload_request env_race s0 ?req)) (part ?req) =
     (Inr (Some (stored_file env1 photo_png)),
      (snd (upload_request env_race s0 ?req))
        \<lparr>disk := AList.update ''1700000000001-500000000.png'' (content photo_png)
                   (disk (snd (upload_request env_race s0 ?req))),
         trace := trace (snd (upload_request env_race s0 ?req)) @
          [FileFilter ''photo.png'', DiskWrite ''1700000000001-500000000.png'']\<rparr>)"
    unfolding p by (rule upload_single_photo_png_env1)
  note c = upload_request_conflict [OF u1 e1]
  have e3: "fst (upload_request env1 (snd (upload_request env_race s0 ?req)) ?req) =
       json_reply 429
         [(''success'', JBool False),
          (''error'', JStr ''Upload already in progress. Please wait.'')]"
    unfolding c by simp
  have e4: "map_of (disk (snd (upload_request env1 (snd (upload_request env_race s0 ?req))
                                 ?req)))
         ''1700000000001-500000000.png'' = Some (content photo_png)"
    unfolding c by (simp add: update_conv')
  from upload_request_photo_png g d r e1 e2 e3 e4 show ?thesis by (intro conjI)
qed

subsection \<open>Steps of the router\<close>

lemma run_stack_skip:
  "\<not> applies l req \<Longrightarrow> run_stack (l # ls) e req None s = run_stack ls e req None s"
  by simp

lemma run_stack_next:
  "applies l req \<Longrightarrow> handle l e s req = (Next, s')
     \<Longrightarrow> run_stack (l # ls) e req None s = run_stack ls e req None s'"
  by simp

lemma run_stack_fail:
  "applies l req \<Longrightarrow> handle l e s req = (Fail err, s')
     \<Longrightarrow> run_stack (l # ls) e req None s = run_stack ls e req (Some err) s'"
  by simp

lemma run_stack_end:
  "applies l req \<Longrightarrow> handle l e s req = (End res, s')
     \<Longrightarrow> run_stack (l # ls) e req None s = ((Some l, Replied (sent req res)), s')"
  by simp

lemma sent_other: "req_method req \<noteq> ''HEAD'' \<Longrightarrow> sent req res = res"
  by (simp add: sent_def)

lemma sent_head:
  "req_method req = ''HEAD'' \<Longrightarrow> sent req res = \<lparr>status = status res, payload = NoBody\<rparr>"
  by (simp add: sent_def)

lemma status_sent: "status (sent req res) = status res"
  by (simp add: sent_def)

lemma run_stack_crash:
  "applies l req \<Longrightarrow> handle l e s req = (Crash err, s')
     \<Longrightarrow> run_stack (l # ls) e req None s = ((Some l, Uncaught err), s')"
  by simp

text \<open>A request that is no pre-flight, on whose body no parser fails and that
  \<open>express.static\<close> passes on passes the four library layers unchanged.\<close>

lemma library_layers_pass:
  assumes "req_method req \<noteq> ''OPTIONS''" and "\<not> malformed_body req"
    and "is_get req \<longrightarrow> serve_static e (req_path req) = StaticPass"
  shows "run_stack (Cors # JsonParser # UrlencodedParser # Static # ls) e req None s
           = run_stack ls e req None s"
  using assms by auto

subsection \<open>Retrieval by name\<close>

lemma indexOf_from_ge: "indexOf_from i s needle = - 1 \<or> int i \<le> indexOf_from i s needle"
proof (induction s arbitrary: i)
  case Nil
  then show ?case by simp
next
  case (Cons c s)
  from Cons [of "Suc i"] show ?case by auto
qed

lemma indexOf_zero_iff: "indexOf s needle = 0 \<longleftrightarrow> prefix needle s"
proof (cases s)
  case Nil
  then show ?thesis by (simp add: indexOf_def)
next
  case (Cons c t)
  from indexOf_from_ge [of "Suc 0" t needle]
  have "indexOf_from (Suc 0) t needle \<noteq> 0" by auto
  with Cons show ?thesis by (simp add: indexOf_def)
qed

text \<open>The check of line 175 compares strings: it lets a path through exactly when the
  text of the storage directory starts it.\<close>

lemma get_upload_file_403_iff:
  "get_upload_file e name = End (json_reply 403 [(''error'', JStr ''Access denied'')])
     \<longleftrightarrow> \<not> prefix (uploadDir e) (path_join [uploadDir e, name])"
  by (auto simp: get_upload_file_def Let_def indexOf_zero_iff send_file_def json_reply_def
      split: send_result.splits)

lemma uploadDir_env0: "uploadDir env0 = ''/srv/app/public/uploads''"
  unfolding uploadDir_def env0_def env.simps by code_simp

lemma path_join_sibling:
  "path_join [''/srv/app/public/uploads'', ''../uploads-old/secret.png'']
     = ''/srv/app/public/uploads-old/secret.png''"
  by code_simp

lemma path_join_passwd:
  "path_join [''/srv/app/public/uploads'', ''../../../../etc/passwd''] = ''/etc/passwd''"
  by code_simp

lemma indexOf_sibling:
  "indexOf ''/srv/app/public/uploads-old/secret.png'' ''/srv/app/public/uploads'' = 0"
  by code_simp

lemma not_inside_sibling:
  "\<not> inside_dir ''/srv/app/public/uploads'' ''/srv/app/public/uploads-old/secret.png''"
  by (simp add: inside_dir_def)

lemma decode_sibling:
  "decodeURIComponent ''..%2Fuploads-old%2Fsecret.png'' = Some ''../uploads-old/secret.png''"
  by code_simp

lemma segment_sibling:
  "filename_segment ''/uploads/..%2Fuploads-old%2Fsecret.png''
     = Some ''..%2Fuploads-old%2Fsecret.png''"
  by code_simp

lemma get_upload_file_sibling:
  "get_upload_file env0 ''../uploads-old/secret.png'' =
     End \<lparr>status = 200, payload = FileBody ''/srv/app/public/uploads-old/secret.png''\<rparr>"
  unfolding get_upload_file_def Let_def uploadDir_env0 path_join_sibling indexOf_sibling
  by (simp add: send_file_def env0_def)

lemma uploadDir_env_absent: "uploadDir env_absent = ''/srv/app/public/uploads''"
  using uploadDir_env0 by (simp add: uploadDir_def env_absent_def)

lemma get_upload_file_sibling_absent:
  "get_upload_file env_absent ''../uploads-old/secret.png'' =
     End (json_reply 404 [(''error'', JStr ''File not found'')])"
  unfolding get_upload_file_def Let_def uploadDir_env_absent path_join_sibling indexOf_sibling
  by (simp add: env_absent_def)

text \<open>
  C3 fails for a sibling of the storage directory whose name continues the name of the
  storage directory. The decoded name \<open>../uploads-old/secret.png\<close> resolves to
  \<open>/srv/app/public/uploads-old/secret.png\<close>, outside \<open>/srv/app/public/uploads\<close>; the
  string comparison of line 175 lets it through, so the handler sends the file when it
  exists and answers 404, not 403, when it does not. A name that leaves the common text,
  such as \<open>../../../../etc/passwd\<close>, is answered 403.
\<close>

theorem sibling_directory_not_denied:
  "uploadDir env0 = ''/srv/app/public/uploads''
   \<and> path_join [uploadDir env0, ''../uploads-old/secret.png'']
       = ''/srv/app/public/uploads-old/secret.png''
   \<and> \<not> inside_dir (uploadDir env0) (path_join [uploadDir env0, ''../uploads-old/secret.png''])
   \<and> get_upload_file env0 ''../uploads-old/secret.png'' =
       End \<lparr>status = 200, payload = FileBody ''/srv/app/public/uploads-old/secret.png''\<rparr>
   \<and> get_upload_file env_absent ''../uploads-old/secret.png'' =
       End (json_reply 404 [(''error'', JStr ''File not found'')])
   \<and> app env_absent s0 get_sibling =
       ((Some GetUploadFile,
         Replied (json_reply 404 [(''error'', JStr ''File not found'')])), s0)
   \<and> get_upload_file env0 ''../../../../etc/passwd'' =
       End (json_reply 403 [(''error'', JStr ''Access denied'')])"
proof -
  have a: "path_join [uploadDir env0, ''../uploads-old/secret.png'']
       = ''/srv/app/public/uploads-old/secret.png''"
    unfolding uploadDir_env0 by (rule path_join_sibling)
  have b: "\<not> inside_dir (uploadDir env0)
      (path_join [uploadDir env0, ''../uploads-old/secret.png''])"
    unfolding a unfolding uploadDir_env0 by (rule not_inside_sibling)
  have m: "req_method get_sibling \<noteq> ''OPTIONS''" and mb: "\<not> malformed_body get_sibling"
    and g: "is_get get_sibling"
    and pf: "is_get get_sibling \<longrightarrow> serve_static env_absent (req_path get_sibling) = StaticPass"
    and nh: "req_method get_sibling \<noteq> ''HEAD''"
    by (simp_all add: get_sibling_def is_get_def env_absent_def env0_def)
  have q: "req_path get_sibling = ''/uploads/..%2Fuploads-old%2Fsecret.png''"
    by (simp add: get_sibling_def)
  have n0: "\<not> applies GetIndex get_sibling" and n1: "\<not> applies PostUpload get_sibling"
    and n2: "\<not> applies GetUploads get_sibling"
    by (simp_all add: q path_is_def)
  have y: "applies GetUploadFile get_sibling"
    unfolding applies.simps q segment_sibling using g by simp
  have h: "handle GetUploadFile env_absent s0 get_sibling =
      (End (json_reply 404 [(''error'', JStr ''File not found'')]), s0)"
    unfolding handle.simps q segment_sibling option.case decode_sibling
      get_upload_file_sibling_absent ..
  have c: "app env_absent s0 get_sibling =
       ((Some GetUploadFile,
         Replied (json_reply 404 [(''error'', JStr ''File not found'')])), s0)"
    unfolding app_def app_stack_def library_layers_pass [OF m mb pf]
      run_stack_skip [OF n0] run_stack_skip [OF n1] run_stack_skip [OF n2]
      run_stack_end [OF y h] sent_other [OF nh] ..
  have d: "get_upload_file env0 ''../../../../etc/passwd'' =
       End (json_reply 403 [(''error'', JStr ''Access denied'')])"
    unfolding get_upload_file_403_iff uploadDir_env0 path_join_passwd by simp
  from uploadDir_env0 a b get_upload_file_sibling get_upload_file_sibling_absent c d
  show ?thesis by (intro conjI)
qed

subsection \<open>Listing\<close>

lemma file_records_fails:
  assumes "\<exists>file \<in> set files. isl (statSync e (path_join [uploadDir e, file]))"
  shows "\<exists>err. file_records e files = Inl err
           \<and> (\<exists>file \<in> set files. statSync e (path_join [uploadDir e, file]) = Inl err)"
  using assms
proof (induction files)
  case Nil
  then show ?case by simp
next
  case (Cons f files)
  show ?case
  proof (cases "statSync e (path_join [uploadDir e, f])")
    case (Inl err)
    then show ?thesis by auto
  next
    case (Inr sz)
    with Cons.prems have "\<exists>file \<in> set files. isl (statSync e (path_join [uploadDir e, file]))"
      by auto
    from Cons.IH [OF this] Inr show ?thesis by auto
  qed
qed

lemma file_records_succeeds:
  assumes "\<forall>file \<in> set files. statSync e (path_join [uploadDir e, file]) = Inr (sz file)"
  shows "file_records e files =
           Inr (map (\<lambda>file. JObj [(''name'', JStr file),
                                   (''url'', JStr (''/uploads/'' @ file)),
                                   (''size'', JNum (int (sz file)))]) files)"
  using assms by (induction files) simp_all

text \<open>
  C10. When the directory scan succeeds and \<open>fs.statSync\<close> fails for one of the listed
  entries, the handler of \<open>GET /uploads\<close> sends no response at all: the exception of the
  first such entry leaves the callback uncaught, and the request that reached the
  handler ends with it instead of the 500 response of a failed scan.
\<close>

theorem listing_stat_failure_uncaught:
  assumes "readdir e (uploadDir e) = Inr files"
    and "\<exists>file \<in> set files. isl (statSync e (path_join [uploadDir e, file]))"
  shows "\<exists>err. (\<exists>file \<in> set files. statSync e (path_join [uploadDir e, file]) = Inl err)
           \<and> get_uploads e = Crash err
           \<and> get_uploads e \<noteq>
               End (json_reply 500
                      [(''success'', JBool False),
                       (''error'', JStr ''Failed to read uploads directory'')])
           \<and> (\<forall>req ls s. applies GetUploads req \<longrightarrow>
                 run_stack (GetUploads # ls) e req None s = ((Some GetUploads, Uncaught err), s))"
proof -
  from file_records_fails [OF assms(2)] obtain err
    where r: "file_records e files = Inl err"
      and f: "\<exists>file \<in> set files. statSync e (path_join [uploadDir e, file]) = Inl err"
    by blast
  from r assms(1) have c: "get_uploads e = Crash err"
    by (simp add: get_uploads_def)
  with f show ?thesis by auto
qed

theorem listing_stat_failure_uncaught_witness:
  "readdir env_gone (uploadDir env_gone) = Inr [''1700000000000-500000000.png'']
   \<and> isl (statSync env_gone (path_join [uploadDir env_gone, ''1700000000000-500000000.png'']))
   \<and> get_uploads env_gone = Crash (SystemError ''ENOENT'')
   \<and> app env_gone s0 get_list = ((Some GetUploads, Uncaught (SystemError ''ENOENT'')), s0)"
proof -
  have a: "readdir env_gone (uploadDir env_gone) = Inr [''1700000000000-500000000.png'']"
    by (simp add: env_gone_def)
  have st: "statSync env_gone = (\<lambda>p. Inl (SystemError ''ENOENT''))"
    by (simp add: env_gone_def env_race_def)
  have b: "isl (statSync env_gone
      (path_join [uploadDir env_gone, ''1700000000000-500000000.png'']))"
    unfolding st by simp
  then have b': "\<exists>file \<in> set [''1700000000000-500000000.png''].
      isl (statSync env_gone (path_join [uploadDir env_gone, file]))"
    by simp
  from listing_stat_failure_uncaught [OF a b'] obtain err
    where e1: "\<exists>file \<in> set [''1700000000000-500000000.png''].
        statSync env_gone (path_join [uploadDir env_gone, file]) = Inl err"
      and c0: "get_uploads env_gone = Crash err"
      and r: "\<forall>req ls s. applies GetUploads req \<longrightarrow>
                 run_stack (GetUploads # ls) env_gone req None s
                   = ((Some GetUploads, Uncaught err), s)"
    by blast
  from e1 have "err = SystemError ''ENOENT''" unfolding st by simp
  with c0 r have c: "get_uploads env_gone = Crash (SystemError ''ENOENT'')"
    and r': "\<And>req ls s. applies GetUploads req \<Longrightarrow>
                 run_stack (GetUploads # ls) env_gone req None s
                   = ((Some GetUploads, Uncaught (SystemError ''ENOENT'')), s)"
    by simp_all
  have m: "req_method get_list \<noteq> ''OPTIONS''" and mb: "\<not> malformed_body get_list"
    and g: "is_get get_list"
    and pf: "is_get get_list \<longrightarrow> serve_static env_gone (req_path get_list) = StaticPass"
    by (simp_all add: get_list_def is_get_def env_gone_def env_race_def env0_def)
  have q: "req_path get_list = ''/uploads/''" by (simp add: get_list_def)
  have n0: "\<not> applies GetIndex get_list" and n1: "\<not> applies PostUpload get_list"
    by (simp_all add: q path_is_def)
  have ap: "applies GetUploads get_list" using g by (simp add: q path_is_def)
  have d: "app env_gone s0 get_list = ((Some GetUploads, Uncaught (SystemError ''ENOENT'')), s0)"
    unfolding app_def app_stack_def library_layers_pass [OF m mb pf]
      run_stack_skip [OF n0] run_stack_skip [OF n1]
    by (rule r' [OF ap])
  from a b c d show ?thesis by (intro conjI)
qed

subsection \<open>Requests that match no route\<close>

lemma run_stack_pending:
  "run_stack ls e req (Some err) s =
     (if ErrorHandler \<in> set ls
      then ((Some ErrorHandler, Replied (sent req (error_handler err))), s)
      else ((None, Unhandled (Some err)), s))"
  by (induction ls) auto

lemma pending_not_405:
  "ErrorHandler \<in> set ls \<Longrightarrow> \<not> answered_405 (fst (run_stack ls e req (Some err) s))"
  using status_error_handler [of err]
  by (auto simp: run_stack_pending answered_405_def status_sent)

lemma upload_handler_status:
  assumes "upload_handler e s client file = (Inr res, s')"
  shows "status res = 429 \<or> status res = 400 \<or> status res = 200"
  using assms
  by (auto simp: upload_handler_def Let_def status_json_reply
      split: if_splits option.splits)

lemma post_upload_status:
  assumes "post_upload e s req = (Inr res, s')"
  shows "status res \<noteq> 405"
proof (cases "upload_single e s (part req)")
  case (Pair r s1)
  show ?thesis
  proof (cases r)
    case (Inl err)
    with Pair assms show ?thesis by (simp add: post_upload_def)
  next
    case (Inr fo)
    with Pair assms have "upload_handler e s1 (ip req) fo = (Inr res, s')"
      by (simp add: post_upload_def)
    from upload_handler_status [OF this] show ?thesis by auto
  qed
qed

lemma get_uploads_status: "get_uploads e = End res \<Longrightarrow> status res \<noteq> 405"
  by (auto simp: get_uploads_def status_json_reply split: sum.splits)

lemma send_file_status: "send_file e p = End res \<Longrightarrow> status res \<noteq> 405"
  by (auto simp: send_file_def split: send_result.splits)

lemma get_upload_file_status: "get_upload_file e name = End res \<Longrightarrow> status res \<noteq> 405"
  by (auto simp: get_upload_file_def Let_def status_json_reply
      dest: send_file_status split: if_splits)

lemma static_status:
  assumes "handle Static e s req = (End res, s')"
  shows "status res \<noteq> 405"
  using assms by (auto split: if_splits static_result.splits)

lemma handle_status:
  assumes "handle l e s req = (End res, s')" and "l \<noteq> MethodNotAllowed"
  shows "status res \<noteq> 405"
proof (cases l)
  case PostUpload
  with assms(1) have "post_upload e s req = (Inr res, s')"
    by (auto split: prod.splits sum.splits)
  then show ?thesis by (rule post_upload_status)
next
  case GetUploadFile
  with assms(1) show ?thesis
    by (auto split: option.splits dest: get_upload_file_status)
next
  case Static
  with assms(1) have "handle Static e s req = (End res, s')" by simp
  then show ?thesis by (rule static_status)
qed (use assms in \<open>auto simp: status_json_reply split: if_splits
      dest: get_uploads_status send_file_status\<close>)

text \<open>Before the 404 layer no layer answers with 405, and behind it no layer is reached;
  with the error handler at the end of the stack, no request runs off its end.\<close>

lemma settled_iff:
  "settled r \<longleftrightarrow> \<not> answered_405 r \<and> (\<forall>pending. snd r \<noteq> Unhandled pending)"
  by (cases "snd r") (simp_all add: settled_def)

lemma pending_settled:
  "ErrorHandler \<in> set ls \<Longrightarrow> settled (fst (run_stack ls e req (Some err) s))"
  using pending_not_405 [of ls e req err s]
  by (simp add: settled_iff run_stack_pending)

lemma settled_before_NotFound:
  assumes "MethodNotAllowed \<notin> set pre" and "ErrorHandler \<in> set post"
  shows "settled (fst (run_stack (pre @ NotFound # post) e req None s))"
  using assms(1)
proof (induction pre arbitrary: s)
  case Nil
  show ?case by (simp add: settled_iff answered_405_def status_json_reply status_sent)
next
  case (Cons l pre)
  then have l: "l \<noteq> MethodNotAllowed" and pre: "MethodNotAllowed \<notin> set pre" by auto
  show ?case
  proof (cases "applies l req")
    case False
    with Cons.IH [OF pre] show ?thesis by simp
  next
    case True
    obtain st s' where h: "handle l e s req = (st, s')" by (cases "handle l e s req")
    show ?thesis
    proof (cases st)
      case Next
      with True h Cons.IH [OF pre, of s'] show ?thesis by simp
    next
      case (Fail err)
      from assms(2) have "ErrorHandler \<in> set (pre @ NotFound # post)" by simp
      from pending_settled [OF this, of e req err s'] True h Fail
      show ?thesis by simp
    next
      case (End res)
      with h have "handle l e s req = (End res, s')" by simp
      from handle_status [OF this l] True h End l show ?thesis
        by (simp add: settled_iff answered_405_def status_sent)
    next
      case (Crash err)
      with True h l show ?thesis by (simp add: settled_iff answered_405_def)
    qed
  qed
qed

lemma app_settled: "settled (fst (app e s req))"
proof -
  have eq: "app e s req =
      run_stack ([Cors, JsonParser, UrlencodedParser, Static, GetIndex, PostUpload,
                  GetUploads, GetUploadFile, GetHealth]
                 @ NotFound # [MethodNotAllowed, ErrorHandler]) e req None s"
    by (simp only: app_def app_stack_def append.simps)
  show ?thesis
    unfolding eq by (rule settled_before_NotFound) simp_all
qed

lemma unmatched_skips_routes:
  assumes "\<not> matches_route req"
  shows "run_stack (GetIndex # PostUpload # GetUploads # GetUploadFile # GetHealth # ls)
           e req None s = run_stack ls e req None s"
proof -
  from assms have a: "\<not> applies GetIndex req" and b: "\<not> applies PostUpload req"
    and c: "\<not> applies GetUploads req" and d: "\<not> applies GetUploadFile req"
    and f: "\<not> applies GetHealth req"
    by (simp_all add: matches_route_def del: applies.simps)
  show ?thesis
    unfolding run_stack_skip [OF a] run_stack_skip [OF b] run_stack_skip [OF c]
      run_stack_skip [OF d] run_stack_skip [OF f] ..
qed

text \<open>
  C9, as amended. A request that the layers before the routes pass on (it is no \<open>OPTIONS\<close>
  pre-flight, no body parser fails on its body, and it is no \<open>GET\<close> or \<open>HEAD\<close> request
  that \<open>express.static\<close> answers with a file, a redirect to a directory or an error) and
  whose method and path match none of the five routes receives the 404 response that
  lists the routes, a \<open>HEAD\<close> request without the body. The 405 layer behind it is never
  reached: no request at all ends in that layer or with status 405, and every request
  is ended by a layer of the application.
\<close>

theorem unmatched_request_404:
  assumes "req_method req \<noteq> ''OPTIONS''" and "\<not> malformed_body req"
    and "is_get req \<longrightarrow> serve_static e (req_path req) = StaticPass"
    and "\<not> matches_route req"
  shows "app e s req =
           ((Some NotFound,
             Replied (sent req (json_reply 404
               [(''success'', JBool False),
                (''error'', JStr (''Route '' @ req_path req @ '' not found'')),
                (''available'',
                 JObj [(''GET /'', JStr ''Serve main page''),
                       (''POST /upload'', JStr ''Upload files''),
                       (''GET /uploads'', JStr ''List uploaded files''),
                       (''GET /health'', JStr ''Health check'')])]))), s)
       \<and> (\<forall>e' s' req'.
             \<not> answered_405 (fst (app e' s' req'))
             \<and> (\<forall>pending. snd (fst (app e' s' req')) \<noteq> Unhandled pending))"
proof
  show "app e s req =
           ((Some NotFound,
             Replied (sent req (json_reply 404
               [(''success'', JBool False),
                (''error'', JStr (''Route '' @ req_path req @ '' not found'')),
                (''available'',
                 JObj [(''GET /'', JStr ''Serve main page''),
                       (''POST /upload'', JStr ''Upload files''),
                       (''GET /uploads'', JStr ''List uploaded files''),
                       (''GET /health'', JStr ''Health check'')])]))), s)"
    unfolding app_def app_stack_def library_layers_pass [OF assms(1-3)]
      unmatched_skips_routes [OF assms(4)]
    by simp
  show "\<forall>e' s' req'.
             \<not> answered_405 (fst (app e' s' req'))
             \<and> (\<forall>pending. snd (fst (app e' s' req')) \<noteq> Unhandled pending)"
    using app_settled by (simp add: settled_iff)
qed

lemma no_route_delete_nowhere: "\<not> matches_route delete_nowhere"
  by (simp add: matches_route_def delete_nowhere_def is_get_def)

lemma no_route_head_nowhere: "\<not> matches_route head_nowhere"
  unfolding head_nowhere_def by code_simp

lemma no_route_options_nowhere: "\<not> matches_route options_nowhere"
  by (simp add: matches_route_def options_nowhere_def is_get_def)

lemma no_route_get_script: "\<not> matches_route get_script"
  unfolding get_script_def by code_simp

theorem unmatched_request_404_witness:
  "req_method delete_nowhere \<noteq> ''OPTIONS'' \<and> \<not> malformed_body delete_nowhere
   \<and> \<not> is_get delete_nowhere \<and> \<not> matches_route delete_nowhere
   \<and> app env0 s0 delete_nowhere =
       ((Some NotFound,
         Replied (json_reply 404
           [(''success'', JBool False),
            (''error'', JStr ''Route /nowhere not found''),
            (''available'',
             JObj [(''GET /'', JStr ''Serve main page''),
                   (''POST /upload'', JStr ''Upload files''),
                   (''GET /uploads'', JStr ''List uploaded files''),
                   (''GET /health'', JStr ''Health check'')])])), s0)
   \<and> req_method head_nowhere \<noteq> ''OPTIONS'' \<and> \<not> malformed_body head_nowhere
   \<and> serve_static env0 (req_path head_nowhere) = StaticPass \<and> \<not> matches_route head_nowhere
   \<and> app env0 s0 head_nowhere =
       ((Some NotFound, Replied \<lparr>status = 404, payload = NoBody\<rparr>), s0)
   \<and> \<not> answered_405 (fst (app env0 s0 options_nowhere))"
proof -
  have m: "req_method delete_nowhere \<noteq> ''OPTIONS''" and mb: "\<not> malformed_body delete_nowhere"
    and ng: "\<not> is_get delete_nowhere"
    and nh: "req_method delete_nowhere \<noteq> ''HEAD''"
    by (simp_all add: delete_nowhere_def is_get_def)
  from ng have pf: "is_get delete_nowhere
      \<longrightarrow> serve_static env0 (req_path delete_nowhere) = StaticPass"
    by simp
  note t = unmatched_request_404 [OF m mb pf no_route_delete_nowhere, of s0]
  from t have a: "app env0 s0 delete_nowhere =
       ((Some NotFound,
         Replied (json_reply 404
           [(''success'', JBool False),
            (''error'', JStr ''Route /nowhere not found''),
            (''available'',
             JObj [(''GET /'', JStr ''Serve main page''),
                   (''POST /upload'', JStr ''Upload files''),
                   (''GET /uploads'', JStr ''List uploaded files''),
                   (''GET /health'', JStr ''Health check'')])])), s0)"
    unfolding sent_other [OF nh] by (simp add: delete_nowhere_def)
  from t have b: "\<not> answered_405 (fst (app env0 s0 options_nowhere))" by blast
  have hm: "req_method head_nowhere \<noteq> ''OPTIONS''" and hb: "\<not> malformed_body head_nowhere"
    and hh: "req_method head_nowhere = ''HEAD''"
    and hs: "serve_static env0 (req_path head_nowhere) = StaticPass"
    by (simp_all add: head_nowhere_def env0_def)
  from hs have hp: "is_get head_nowhere
      \<longrightarrow> serve_static env0 (req_path head_nowhere) = StaticPass"
    by simp
  from unmatched_request_404 [OF hm hb hp no_route_head_nowhere, of s0]
  have c: "app env0 s0 head_nowhere =
       ((Some NotFound, Replied \<lparr>status = 404, payload = NoBody\<rparr>), s0)"
    unfolding sent_head [OF hh] by (simp add: status_json_reply)
  from m mb ng no_route_delete_nowhere a hm hb hs no_route_head_nowhere c b
  show ?thesis by (intro conjI)
qed

text \<open>
  The claim as written fails for requests that a library layer answers before the routes
  are tried: an \<open>OPTIONS\<close> request for any path is answered by \<open>cors()\<close> with 204, and a
  \<open>GET\<close> for a file of \<open>public/\<close>, such as \<open>/script.js\<close>, by \<open>express.static\<close> with the
  file. Neither matches a route, neither receives the 404 response.
\<close>

theorem unmatched_request_answered_by_library:
  "\<not> matches_route options_nowhere
   \<and> app env0 s0 options_nowhere =
       ((Some Cors, Replied \<lparr>status = 204, payload = NoBody\<rparr>), s0)
   \<and> \<not> matches_route get_script
   \<and> app env_static s0 get_script =
       ((Some Static,
         Replied \<lparr>status = 200, payload = FileBody ''/srv/app/public/script.js''\<rparr>), s0)"
proof -
  have a: "app env0 s0 options_nowhere =
       ((Some Cors, Replied \<lparr>status = 204, payload = NoBody\<rparr>), s0)"
    unfolding app_def app_stack_def by (simp add: options_nowhere_def sent_def)
  have c: "handle Cors env_static s0 get_script = (Next, s0)"
    and j: "handle JsonParser env_static s0 get_script = (Next, s0)"
    and u: "handle UrlencodedParser env_static s0 get_script = (Next, s0)"
    and nh: "req_method get_script \<noteq> ''HEAD''"
    by (simp_all add: get_script_def)
  have st: "handle Static env_static s0 get_script =
      (End \<lparr>status = 200, payload = FileBody ''/srv/app/public/script.js''\<rparr>, s0)"
    by (simp add: get_script_def env_static_def env0_def is_get_def)
  have ap: "applies Cors get_script" "applies JsonParser get_script"
    "applies UrlencodedParser get_script" "applies Static get_script"
    by simp_all
  have b: "app env_static s0 get_script =
       ((Some Static,
         Replied \<lparr>status = 200, payload = FileBody ''/srv/app/public/script.js''\<rparr>), s0)"
    unfolding app_def app_stack_def
      run_stack_next [OF ap(1) c] run_stack_next [OF ap(2) j] run_stack_next [OF ap(3) u]
      run_stack_end [OF ap(4) st] sent_other [OF nh] ..
  from no_route_options_nowhere a no_route_get_script b show ?thesis by (intro conjI)
qed

subsection \<open>The listing after a sequence of uploads\<close>

lemma upload_handler_disk: "disk (snd (upload_handler e s client file)) = disk s"
  by (auto simp: upload_handler_def Let_def split: option.splits)

lemma upload_request_200_disk:
  assumes "upload_request e s req = (res, s')" and "status res = 200"
  shows "\<exists>file. part req = Some file
           \<and> disk s' = AList.update (stored_name (e, req)) (content file) (disk s)"
proof -
  from upload_request_200 [OF assms] obtain fp s1
    where p: "part req = Some fp"
      and u: "upload_single e s (part req) = (Inr (Some (stored_file e fp)), s1)"
    by blast
  from upload_single_Some [OF u] p
  have d1: "disk s1 =
      AList.update (storage_filename (now_filename e) (math_random e) fp) (content fp) (disk s)"
    by auto
  from assms(1) have "s' = snd (upload_request e s req)" by simp
  also have "\<dots> = snd (upload_handler e s1 (ip req) (Some (stored_file e fp)))"
    by (simp add: upload_request_snd post_upload_snd u)
  finally have "disk s' = disk s1" by (simp add: upload_handler_disk)
  with d1 p show ?thesis by (simp add: stored_name_def)
qed

lemma update_new_key:
  "k \<notin> set (map fst al) \<Longrightarrow> map fst (AList.update k v al) = map fst al @ [k]"
  by (induction al) auto

lemma uploads_keys:
  assumes "uploads s reqs = (s', rs)" and "\<forall>res \<in> set rs. status res = 200"
    and "distinct (map fst (disk s) @ map stored_name reqs)"
  shows "map fst (disk s') = map fst (disk s) @ map stored_name reqs"
  using assms
proof (induction reqs arbitrary: s s' rs)
  case Nil
  then show ?case by simp
next
  case (Cons er reqs)
  obtain e req where er: "er = (e, req)" by (cases er)
  obtain res s1 where r: "upload_request e s req = (res, s1)"
    by (cases "upload_request e s req")
  obtain s2 others where u: "uploads s1 reqs = (s2, others)"
    by (cases "uploads s1 reqs")
  from Cons.prems(1) er r u have s': "s' = s2" and rs: "rs = res # others" by simp_all
  from Cons.prems(2) rs have ok: "status res = 200"
    and oks: "\<forall>res \<in> set others. status res = 200" by simp_all
  from upload_request_200_disk [OF r ok] obtain v
    where d1: "disk s1 = AList.update (stored_name er) v (disk s)"
    unfolding er by blast
  from Cons.prems(3) have new: "stored_name er \<notin> set (map fst (disk s))" by auto
  from d1 update_new_key [OF new]
  have k1: "map fst (disk s1) = map fst (disk s) @ [stored_name er]" by simp
  with Cons.prems(3) have "distinct (map fst (disk s1) @ map stored_name reqs)" by simp
  from Cons.IH [OF u oks this] k1 s' show ?case by simp
qed

lemma uploads_length: "uploads s reqs = (s', rs) \<Longrightarrow> length rs = length reqs"
proof (induction reqs arbitrary: s rs)
  case Nil
  then show ?case by simp
next
  case (Cons er reqs)
  then show ?case
    by (cases er) (auto split: prod.splits)
qed

lemma uploadDir_quiet: "uploadDir (quiet e d) = uploadDir e"
  by (simp add: uploadDir_def quiet_def)

lemma dir_statSync_listed:
  assumes "n \<in> set (map fst d)"
  shows "\<exists>k. dir_statSync dir d (path_join [dir, n]) = Inr k"
proof -
  from assms obtain entry where "entry \<in> set d" and "fst entry = n" by auto
  then have "entry \<in> set (filter (\<lambda>entry. path_join [dir, fst entry] = path_join [dir, n]) d)"
    by simp
  then have "filter (\<lambda>entry. path_join [dir, fst entry] = path_join [dir, n]) d \<noteq> []"
    by (metis empty_iff list.set(1))
  then show ?thesis
    by (cases "filter (\<lambda>entry. path_join [dir, fst entry] = path_join [dir, n]) d")
       (simp_all add: dir_statSync_def)
qed

lemma get_uploads_listed:
  assumes "readdir e (uploadDir e) = Inr files"
    and "\<forall>file \<in> set files. statSync e (path_join [uploadDir e, file]) = Inr (sz file)"
  shows "get_uploads e =
           End (json_reply 200
             [(''success'', JBool True),
              (''count'', JNum (int (length files))),
              (''files'',
               JArr (map (\<lambda>file. JObj [(''name'', JStr file),
                                         (''url'', JStr (''/uploads/'' @ file)),
                                         (''size'', JNum (int (sz file)))]) files))])"
  by (simp add: get_uploads_def assms(1) file_records_succeeds [OF assms(2)])

lemma get_uploads_quiet:
  "\<exists>fileList. length fileList = length d
     \<and> get_uploads (quiet e d) =
         End (json_reply 200
           [(''success'', JBool True),
            (''count'', JNum (int (length d))),
            (''files'', JArr fileList)])"
proof -
  let ?sz = "\<lambda>file. projr (dir_statSync (uploadDir e) d (path_join [uploadDir e, file]))"
  have r: "readdir (quiet e d) (uploadDir (quiet e d)) = Inr (map fst d)"
    by (simp add: quiet_def dir_readdir_def)
  have st: "\<forall>file \<in> set (map fst d).
      statSync (quiet e d) (path_join [uploadDir (quiet e d), file]) = Inr (?sz file)"
  proof
    fix n assume "n \<in> set (map fst d)"
    from dir_statSync_listed [OF this, of "uploadDir e"]
    show "statSync (quiet e d) (path_join [uploadDir (quiet e d), n]) = Inr (?sz n)"
      unfolding uploadDir_quiet by (auto simp: quiet_def)
  qed
  from get_uploads_listed [OF r st] show ?thesis
    by (intro exI [of _ "map (\<lambda>file. JObj [(''name'', JStr file),
                                         (''url'', JStr (''/uploads/'' @ file)),
                                         (''size'', JNum (int (?sz file)))]) (map fst d)"])
       simp
qed

text \<open>
  C8, as amended. When the directory scan succeeds and every entry can be stat-ed,
  \<open>GET /uploads\<close> returns \<open>success\<close> (true), \<open>count\<close>, the number of entries, and \<open>files\<close>, one
  record per entry in the order of the scan, with the name, the url \<open>/uploads/\<close> and the
  name, and the size that \<open>fs.statSync\<close> reported. After N uploads answered with 200 whose
  generated names are pairwise distinct, into an empty storage directory that nothing else
  changes, the directory holds those N names and \<open>count\<close> is N.
\<close>

theorem listing_counts_entries:
  "(readdir e (uploadDir e) = Inr files
      \<and> (\<forall>file \<in> set files. statSync e (path_join [uploadDir e, file]) = Inr (sz file))
    \<longrightarrow> get_uploads e =
           End (json_reply 200
             [(''success'', JBool True),
              (''count'', JNum (int (length files))),
              (''files'',
               JArr (map (\<lambda>file. JObj [(''name'', JStr file),
                                         (''url'', JStr (''/uploads/'' @ file)),
                                         (''size'', JNum (int (sz file)))]) files))]))
   \<and> (disk s = [] \<and> uploads s reqs = (s', rs) \<and> (\<forall>res \<in> set rs. status res = 200)
      \<and> distinct (map stored_name reqs)
    \<longrightarrow> map fst (disk s') = map stored_name reqs
        \<and> (\<exists>fileList. length fileList = length reqs
             \<and> get_uploads (quiet e' (disk s')) =
                 End (json_reply 200
                   [(''success'', JBool True),
                    (''count'', JNum (int (length reqs))),
                    (''files'', JArr fileList)])))"
proof (intro conjI impI)
  assume "readdir e (uploadDir e) = Inr files
      \<and> (\<forall>file \<in> set files. statSync e (path_join [uploadDir e, file]) = Inr (sz file))"
  then show "get_uploads e =
           End (json_reply 200
             [(''success'', JBool True),
              (''count'', JNum (int (length files))),
              (''files'',
               JArr (map (\<lambda>file. JObj [(''name'', JStr file),
                                         (''url'', JStr (''/uploads/'' @ file)),
                                         (''size'', JNum (int (sz file)))]) files))])"
    using get_uploads_listed by blast
next
  assume a: "disk s = [] \<and> uploads s reqs = (s', rs) \<and> (\<forall>res \<in> set rs. status res = 200)
      \<and> distinct (map stored_name reqs)"
  then have "distinct (map fst (disk s) @ map stored_name reqs)" by simp
  with a uploads_keys [of s reqs s' rs]
  show k: "map fst (disk s') = map stored_name reqs" by simp
  then have "length (disk s') = length reqs"
    by (metis length_map)
  with get_uploads_quiet [of "disk s'" e']
  show "\<exists>fileList. length fileList = length reqs
             \<and> get_uploads (quiet e' (disk s')) =
                 End (json_reply 200
                   [(''success'', JBool True),
                    (''count'', JNum (int (length reqs))),
                    (''files'', JArr fileList)])"
    by simp
qed

lemma log_file_details_env1: "log_file_details env1 file = None"
  by (simp add: log_file_details_def env1_def env0_def Let_def split: option.splits)

text \<open>The state after the first upload of \<open>photo_png\<close>, and a second upload from there.\<close>

lemma upload_request_photo_png_again:
  assumes "e = env0 \<or> e = env1"
  shows "upload_request e
       \<lparr>uploadSessions = Map.empty,
        disk = [(''1700000000000-500000000.png'', content photo_png)],
        trace = tr\<rparr>
       (upload_of photo_png) =
     (json_reply 200 (upload_result e (stored_file e photo_png)),
      \<lparr>uploadSessions = Map.empty,
       disk = AList.update (storage_filename (now_filename e) (math_random e) photo_png)
                (content photo_png) [(''1700000000000-500000000.png'', content photo_png)],
       trace = tr @
         [FileFilter ''photo.png'',
          DiskWrite (storage_filename (now_filename e) (math_random e) photo_png),
          SessionsHas ''203.0.113.7'', SessionsSet ''203.0.113.7'',
          SessionsDelete ''203.0.113.7'']\<rparr>)"
proof -
  let ?s = "\<lparr>uploadSessions = Map.empty,
        disk = [(''1700000000000-500000000.png'', content photo_png)],
        trace = tr\<rparr>"
  have p: "part (upload_of photo_png) = Some photo_png"
    and a: "originalname photo_png \<noteq> []" and b: "fieldname photo_png = ''file''"
    and c: "length (content photo_png) \<le> fileSize"
    and g: "uploadSessions ?s (ip (upload_of photo_png)) = None"
    by (simp_all add: photo_png_def fileSize_def upload_of_def)
  from assms have d: "write_error e = None"
    by (auto simp: env0_def env1_def)
  from assms have l: "log_file_details e (Some (stored_file e photo_png)) = None"
    by (auto simp: log_file_details_env0 log_file_details_env1)
  show ?thesis
    unfolding upload_request_stored [OF p a b fileFilter_photo_png d c g l]
    by (simp add: upload_of_def photo_png_def)
qed

lemma uploads_twice:
  "uploads s0 twice =
     (\<lparr>uploadSessions = Map.empty,
       disk = [(''1700000000000-500000000.png'', content photo_png)],
       trace = [FileFilter ''photo.png'', DiskWrite ''1700000000000-500000000.png'',
                SessionsHas ''203.0.113.7'', SessionsSet ''203.0.113.7'',
                SessionsDelete ''203.0.113.7'',
                FileFilter ''photo.png'', DiskWrite ''1700000000000-500000000.png'',
                SessionsHas ''203.0.113.7'', SessionsSet ''203.0.113.7'',
                SessionsDelete ''203.0.113.7'']\<rparr>,
      [json_reply 200 (upload_result env0 (stored_file env0 photo_png)),
       json_reply 200 (upload_result env0 (stored_file env0 photo_png))])"
  unfolding twice_def uploads.simps upload_request_photo_png prod.case
    upload_request_photo_png_again [of env0, simplified] name_photo_png
  by simp

lemma uploads_apart:
  "uploads s0 apart =
     (\<lparr>uploadSessions = Map.empty,
       disk = [(''1700000000000-500000000.png'', content photo_png),
               (''1700000000001-500000000.png'', content photo_png)],
       trace = [FileFilter ''photo.png'', DiskWrite ''1700000000000-500000000.png'',
                SessionsHas ''203.0.113.7'', SessionsSet ''203.0.113.7'',
                SessionsDelete ''203.0.113.7'',
                FileFilter ''photo.png'', DiskWrite ''1700000000001-500000000.png'',
                SessionsHas ''203.0.113.7'', SessionsSet ''203.0.113.7'',
                SessionsDelete ''203.0.113.7'']\<rparr>,
      [json_reply 200 (upload_result env0 (stored_file env0 photo_png)),
       json_reply 200 (upload_result env1 (stored_file env1 photo_png))])"
  unfolding apart_def uploads.simps upload_request_photo_png prod.case
    upload_request_photo_png_again [of env1, simplified] name_photo_png_env1
  by simp

lemma get_uploads_one_file:
  "get_uploads (quiet env0 [(''1700000000000-500000000.png'', content photo_png)]) =
     End (json_reply 200
       [(''success'', JBool True),
        (''count'', JNum 1),
        (''files'',
         JArr [JObj [(''name'', JStr ''1700000000000-500000000.png''),
                     (''url'', JStr ''/uploads/1700000000000-500000000.png''),
                     (''size'', JNum 2097152)]])])"
proof -
  let ?d = "[(''1700000000000-500000000.png'', content photo_png)]"
  have r: "readdir (quiet env0 ?d) (uploadDir (quiet env0 ?d))
      = Inr [''1700000000000-500000000.png'']"
    by (simp add: quiet_def dir_readdir_def)
  have st: "\<forall>file \<in> set [''1700000000000-500000000.png''].
      statSync (quiet env0 ?d) (path_join [uploadDir (quiet env0 ?d), file]) = Inr 2097152"
    unfolding uploadDir_quiet by (simp add: quiet_def dir_statSync_def photo_png_def)
  from get_uploads_listed [OF r st] show ?thesis by simp
qed

text \<open>
  The count falls short of the number of uploads when two generated names coincide: two
  uploads of \<open>photo.png\<close> in the same millisecond with the same value of \<open>Math.random()\<close>
  are both answered 200, the second overwrites the file of the first, and the listing
  counts one entry.
\<close>

theorem same_name_uploads_counted_once:
  "disk s0 = [] \<and> length twice = 2
   \<and> map status (snd (uploads s0 twice)) = [200, 200]
   \<and> get_uploads (quiet env0 (disk (fst (uploads s0 twice)))) =
       End (json_reply 200
         [(''success'', JBool True),
          (''count'', JNum 1),
          (''files'',
           JArr [JObj [(''name'', JStr ''1700000000000-500000000.png''),
                       (''url'', JStr ''/uploads/1700000000000-500000000.png''),
                       (''size'', JNum 2097152)]])])"
proof -
  have a: "disk s0 = []" and b: "length twice = 2" by (simp_all add: s0_def twice_def)
  have c: "map status (snd (uploads s0 twice)) = [200, 200]"
    unfolding uploads_twice by (simp add: status_json_reply)
  have d: "get_uploads (quiet env0 (disk (fst (uploads s0 twice)))) =
       End (json_reply 200
         [(''success'', JBool True),
          (''count'', JNum 1),
          (''files'',
           JArr [JObj [(''name'', JStr ''1700000000000-500000000.png''),
                       (''url'', JStr ''/uploads/1700000000000-500000000.png''),
                       (''size'', JNum 2097152)]])])"
    unfolding uploads_twice fst_conv server_state.simps by (rule get_uploads_one_file)
  from a b c d show ?thesis by (intro conjI)
qed

theorem listing_counts_entries_witness:
  "readdir env_listed (uploadDir env_listed) = Inr [''1700000000000-500000000.png'']
   \<and> statSync env_listed (path_join [uploadDir env_listed, ''1700000000000-500000000.png''])
       = Inr 2097152
   \<and> get_uploads env_listed =
       End (json_reply 200
         [(''success'', JBool True),
          (''count'', JNum 1),
          (''files'',
           JArr [JObj [(''name'', JStr ''1700000000000-500000000.png''),
                       (''url'', JStr ''/uploads/1700000000000-500000000.png''),
                       (''size'', JNum 2097152)]])])
   \<and> disk s0 = [] \<and> length apart = 2
   \<and> map status (snd (uploads s0 apart)) = [200, 200]
   \<and> distinct (map stored_name apart)
   \<and> map fst (disk (fst (uploads s0 apart))) =
       [''1700000000000-500000000.png'', ''1700000000001-500000000.png'']
   \<and> (\<exists>fileList. length fileList = 2
        \<and> get_uploads (quiet env0 (disk (fst (uploads s0 apart)))) =
            End (json_reply 200
              [(''success'', JBool True),
               (''count'', JNum 2),
               (''files'', JArr fileList)]))"
proof -
  obtain s' rs where u: "uploads s0 apart = (s', rs)" by (cases "uploads s0 apart")
  have rd: "readdir env_listed (uploadDir env_listed) = Inr [''1700000000000-500000000.png'']"
    by (simp add: env_listed_def)
  have st: "statSync env_listed
      (path_join [uploadDir env_listed, ''1700000000000-500000000.png'']) = Inr 2097152"
    by (simp add: env_listed_def env0_def)
  then have st': "\<forall>file \<in> set [''1700000000000-500000000.png''].
      statSync env_listed (path_join [uploadDir env_listed, file]) = Inr ((\<lambda>f. 2097152) file)"
    by simp
  have d0: "disk s0 = []" and len: "length apart = 2" by (simp_all add: s0_def apart_def)
  from u have ok: "map status rs = [200, 200]"
    unfolding uploads_apart by (auto simp: status_json_reply)
  then have oks: "\<forall>res \<in> set rs. status res = 200"
    by (cases rs) auto
  have names: "map stored_name apart =
      [''1700000000000-500000000.png'', ''1700000000001-500000000.png'']"
    by (simp add: apart_def stored_name_def upload_of_def name_photo_png name_photo_png_env1)
  then have dist: "distinct (map stored_name apart)" by simp
  note t = listing_counts_entries [of env_listed "[''1700000000000-500000000.png'']"
      "\<lambda>f. 2097152" s0 apart s' rs env0]
  from t rd st' have a: "get_uploads env_listed =
       End (json_reply 200
         [(''success'', JBool True),
          (''count'', JNum 1),
          (''files'',
           JArr [JObj [(''name'', JStr ''1700000000000-500000000.png''),
                       (''url'', JStr ''/uploads/1700000000000-500000000.png''),
                       (''size'', JNum 2097152)]])])"
    by simp
  from t d0 u oks dist
  have k: "map fst (disk s') = map stored_name apart"
    and "\<exists>fileList. length fileList = length apart
             \<and> get_uploads (quiet env0 (disk s')) =
                 End (json_reply 200
                   [(''success'', JBool True),
                    (''count'', JNum (int (length apart))),
                    (''files'', JArr fileList)])"
    by blast+
  then have b: "map fst (disk (fst (uploads s0 apart))) =
       [''1700000000000-500000000.png'', ''1700000000001-500000000.png'']"
    and c: "\<exists>fileList. length fileList = 2
        \<and> get_uploads (quiet env0 (disk (fst (uploads s0 apart)))) =
            End (json_reply 200
              [(''success'', JBool True),
               (''count'', JNum 2),
               (''files'', JArr fileList)])"
    unfolding u fst_conv names len by simp_all
  from ok have ok': "map status (snd (uploads s0 apart)) = [200, 200]"
    unfolding u by simp
  from rd st a d0 len ok' dist b c show ?thesis by (intro conjI)
qed

end
